theory Spec2Isabelle
  imports Main "HOL-Library.Multiset" "HOL-Library.Sublist"
begin

section \<open>Field mapper and document builder\<close>

text \<open>
  The search backend in \<^verbatim>\<open>wagtail_meilisearch/backend.py\<close> turns content objects into
  flat documents, one index per model, and answers a search by querying the index of
  every descendant model, merging the hits, scoring them and fetching the rows from the
  database. This theory embeds those functions and states the properties of the design
  document against them.

  Source functions whose name starts with an underscore keep their name without it
  (\<^verbatim>\<open>_get_field_mapping\<close> is \<open>get_field_mapping\<close>, \<^verbatim>\<open>_do_search\<close> is \<open>do_search\<close>).
\<close>

subsection \<open>Field descriptors\<close>

text \<open>
  The four descriptor classes the source tests with \<^verbatim>\<open>isinstance\<close>. A
  \<^verbatim>\<open>RelatedFields\<close> descriptor carries its \<^verbatim>\<open>fields\<close>.
\<close>

datatype field =
    SearchField string
  | FilterField string
  | AutocompleteField string
  | RelatedFields string "field list"

fun field_name :: "field \<Rightarrow> string" where
  "field_name (SearchField n) = n"
| "field_name (FilterField n) = n"
| "field_name (AutocompleteField n) = n"
| "field_name (RelatedFields n subs) = n"

definition AUTOCOMPLETE_SUFFIX :: string where
  "AUTOCOMPLETE_SUFFIX = ''_ngrams''"

definition FILTER_SUFFIX :: string where
  "FILTER_SUFFIX = ''_filter''"

text \<open>
  \<^verbatim>\<open>
  def _get_field_mapping(field):
      if isinstance(field, FilterField):
          return field.field_name + FILTER_SUFFIX
      elif isinstance(field, AutocompleteField):
          return field.field_name + AUTOCOMPLETE_SUFFIX
      return field.field_name
  \<close>
\<close>

fun get_field_mapping :: "field \<Rightarrow> string" where
  "get_field_mapping (FilterField n) = n @ FILTER_SUFFIX"
| "get_field_mapping (AutocompleteField n) = n @ AUTOCOMPLETE_SUFFIX"
| "get_field_mapping f = field_name f"

subsection \<open>Values and their preparation\<close>

text \<open>
  The values a field can resolve to, as far as \<^verbatim>\<open>prepare_value\<close> tells them apart:
  a string, a list, a dict (its values, in insertion order, are what matters), a
  callable (\<open>PCallable b t\<close>: its truth value is \<open>b\<close>, and calling it gives a value whose
  \<^verbatim>\<open>force_text\<close> is \<open>t\<close>; a function is true, a callable object with a false
  \<^verbatim>\<open>__bool__\<close> or a zero \<^verbatim>\<open>__len__\<close> is not), and any other object (\<open>PObject b t\<close>: its
  truth value is \<open>b\<close> and its \<^verbatim>\<open>force_text\<close> is \<open>t\<close>; \<^verbatim>\<open>None\<close> is
  \<open>PObject False ''None''\<close>, the integer 7 is \<open>PObject True ''7''\<close>).
\<close>

datatype pyvalue =
    PStr string
  | PList "pyvalue list"
  | PDict "(string \<times> pyvalue) list"
  | PCallable bool string
  | PObject bool string

fun truthy :: "pyvalue \<Rightarrow> bool" where
  "truthy (PStr s) = (s \<noteq> [])"
| "truthy (PList xs) = (xs \<noteq> [])"
| "truthy (PDict kvs) = (kvs \<noteq> [])"
| "truthy (PCallable b t) = b"
| "truthy (PObject b t) = b"

text \<open>Python's \<^verbatim>\<open>sep.join(parts)\<close>.\<close>

fun join :: "string \<Rightarrow> string list \<Rightarrow> string" where
  "join sep [] = []"
| "join sep [s] = s"
| "join sep (s # t # ts) = s @ sep @ join sep (t # ts)"

text \<open>
  \<^verbatim>\<open>
  def prepare_value(self, value):
      if not value:
          return ''
      if isinstance(value, str):
          return value
      if isinstance(value, list):
          return ', '.join(self.prepare_value(item) for item in value)
      if isinstance(value, dict):
          return ', '.join(self.prepare_value(item)
                           for item in value.values())
      if callable(value):
          return force_text(value())
      return force_text(value)
  \<close>
\<close>

fun prepare_value :: "pyvalue \<Rightarrow> string" where
  "prepare_value (PStr s) = (if \<not> truthy (PStr s) then [] else s)"
| "prepare_value (PList xs) =
     (if \<not> truthy (PList xs) then [] else join '', '' (map prepare_value xs))"
| "prepare_value (PDict kvs) =
     (if \<not> truthy (PDict kvs) then []
      else join '', '' (map prepare_value (map snd kvs)))"
| "prepare_value (PCallable b t) = (if \<not> truthy (PCallable b t) then [] else t)"
| "prepare_value (PObject b t) = (if \<not> truthy (PObject b t) then [] else t)"

subsection \<open>Content objects\<close>

text \<open>
  A related object is read in two ways: \<^verbatim>\<open>qs.values_list(name, flat=True)\<close> reads the
  column \<open>name\<close> of each object of a related collection, and
  \<^verbatim>\<open>sub_field.get_value(obj)\<close> reads the field from a single related object.
\<close>

record relobj =
  rel_column :: "string \<Rightarrow> pyvalue"
  rel_value :: "string \<Rightarrow> pyvalue"

text \<open>
  What \<^verbatim>\<open>RelatedFields.get_value\<close> returns: a manager or queryset over the related
  objects, a single model instance, or anything else (\<^verbatim>\<open>None\<close> for an empty foreign
  key), for which the source emits nothing.
\<close>

datatype related = Manager "relobj list" | ModelInstance relobj | OtherValue

text \<open>
  A content object: its primary key (\<^verbatim>\<open>item.pk\<close>), its attribute \<^verbatim>\<open>item.id\<close>, and what
  \<^verbatim>\<open>field.get_value(item)\<close> returns for a plain descriptor and for a \<^verbatim>\<open>RelatedFields\<close>
  descriptor of a given name. The attribute \<^verbatim>\<open>id\<close> is the primary key only when the
  model's key field has that name: a model whose key field has another name has no
  attribute \<^verbatim>\<open>id\<close> (\<open>None\<close>; reading it raises \<^verbatim>\<open>AttributeError\<close>) unless it defines one
  of its own, which then holds some other value.
\<close>

record item =
  item_pk :: int
  item_id :: "int option"
  get_value :: "string \<Rightarrow> pyvalue"
  get_related :: "string \<Rightarrow> related"

text \<open>The exceptions the modelled code raises.\<close>

datatype error =
    NotImplementedError string
  | TypeError
  | ValueError
  | AttributeError
  | DebuggerTrap
  | CheckError string

subsection \<open>Documents\<close>

text \<open>A document value is a prepared string, or the value of \<^verbatim>\<open>item.id\<close> under \<^verbatim>\<open>id\<close>.\<close>

datatype docvalue = DText string | DId int

text \<open>
  \<^verbatim>\<open>
  def _get_document_fields(self, model, item):
      for field in model.get_search_fields():
          if isinstance(field, (SearchField, FilterField, AutocompleteField)):
              yield _get_field_mapping(field), self.prepare_value(field.get_value(item))
          if isinstance(field, RelatedFields):
              value = field.get_value(item)
              if isinstance(value, (Manager, QuerySet)):
                  qs = value.all()
                  for sub_field in field.fields:
                      sub_values = qs.values_list(sub_field.field_name, flat=True)
                      yield '{0}__{1}'.format(field.field_name, _get_field_mapping(sub_field)), \
                          self.prepare_value(list(sub_values))
              if isinstance(value, Model):
                  for sub_field in field.fields:
                      yield '{0}__{1}'.format(field.field_name, _get_field_mapping(sub_field)),\
                          self.prepare_value(sub_field.get_value(value))
  \<close>
  The generator is the list of the pairs it yields, in order; the first argument is
  \<^verbatim>\<open>model.get_search_fields()\<close>.
\<close>

definition related_key :: "string \<Rightarrow> field \<Rightarrow> string" where
  "related_key n sub_field = n @ ''__'' @ get_field_mapping sub_field"

fun document_fields_of :: "item \<Rightarrow> field \<Rightarrow> (string \<times> docvalue) list" where
  "document_fields_of it (RelatedFields n subs) =
     (case get_related it n of
        Manager qs \<Rightarrow>
          map (\<lambda>sub_field.
                 (related_key n sub_field,
                  DText (prepare_value
                    (PList (map (\<lambda>obj. rel_column obj (field_name sub_field)) qs)))))
              subs
      | ModelInstance obj \<Rightarrow>
          map (\<lambda>sub_field.
                 (related_key n sub_field,
                  DText (prepare_value (rel_value obj (field_name sub_field)))))
              subs
      | OtherValue \<Rightarrow> [])"
| "document_fields_of it f =
     [(get_field_mapping f, DText (prepare_value (get_value it (field_name f))))]"

definition get_document_fields :: "field list \<Rightarrow> item \<Rightarrow> (string \<times> docvalue) list" where
  "get_document_fields search_fields it = concat (map (document_fields_of it) search_fields)"

text \<open>
  \<^verbatim>\<open>
  def _create_document(self, model, item):
      doc_fields = dict(self._get_document_fields(model, item))
      doc_fields.update(id=item.id)
      document = {}
      document.update(doc_fields)
      return document
  \<close>
  \<^verbatim>\<open>dict(pairs)\<close> keeps the last value of a repeated key; \<open>map_of\<close> keeps the first, so
  the pairs are reversed.
\<close>

definition py_dict :: "(string \<times> 'v) list \<Rightarrow> (string \<rightharpoonup> 'v)" where
  "py_dict pairs = map_of (rev pairs)"

definition create_document :: "field list \<Rightarrow> item \<Rightarrow> error + (string \<rightharpoonup> docvalue)" where
  "create_document search_fields it =
     (let doc_fields = py_dict (get_document_fields search_fields it)
      in case item_id it of
           None \<Rightarrow> Inl AttributeError
         | Some i \<Rightarrow>
             (let doc_fields = doc_fields(''id'' \<mapsto> DId i);
                  document = Map.empty;
                  document = document ++ doc_fields
              in Inr document))"

text \<open>
  The index keys as the design document words them: the name for a Search field, the
  name with \<^verbatim>\<open>_filter\<close> for a Filter field, the name with \<^verbatim>\<open>_ngrams\<close> for an
  Autocomplete field, and for a Related field one key per sub-field, the related name
  joined to the sub-field's key by \<^verbatim>\<open>__\<close> (none when the related value is neither a
  collection nor an object).
\<close>

fun spec_map_key :: "field \<Rightarrow> string" where
  "spec_map_key (SearchField n) = n"
| "spec_map_key (FilterField n) = n @ ''_filter''"
| "spec_map_key (AutocompleteField n) = n @ ''_ngrams''"
| "spec_map_key (RelatedFields n subs) = n"

fun spec_index_keys :: "item \<Rightarrow> field \<Rightarrow> string list" where
  "spec_index_keys it (RelatedFields n subs) =
     (if get_related it n = OtherValue then []
      else map (\<lambda>sub. n @ ''__'' @ spec_map_key sub) subs)"
| "spec_index_keys it f = [spec_map_key f]"

section \<open>Search orchestration\<close>

subsection \<open>Hits and their textual rendering\<close>

text \<open>
  A model class is named by its label. Every index is created with
  \<^verbatim>\<open>primary_key='id'\<close> and queried with \<^verbatim>\<open>'matches': 'true'\<close>, so a hit is a dict with
  the key \<^verbatim>\<open>id\<close>, the key \<^verbatim>\<open>_matchesInfo\<close> and the stored attributes of the document. The
  match metadata has the shape the source documents:
  \<^verbatim>\<open>{'title': [{'start': 0, 'length': 6}], 'body': [...]}\<close>,
  a dict from attribute name to a list of spans, kept in insertion order because
  \<^verbatim>\<open>str\<close> renders it in that order.
\<close>

type_synonym model = string

record span =
  span_start :: int
  span_length :: int

type_synonym matches_info = "(string \<times> span list) list"

record hit =
  hit_id :: int
  matchesInfo :: matches_info
  hit_fields :: "(string \<times> string) list"

text \<open>Python's \<^verbatim>\<open>repr\<close> of an \<^verbatim>\<open>int\<close>: decimal digits, with a sign when negative.\<close>

definition digit_char :: "nat \<Rightarrow> char" where
  "digit_char d = ''0123456789'' ! (d mod 10)"

fun digits :: "nat \<Rightarrow> string" where
  "digits n = (if n < 10 then [digit_char n] else digits (n div 10) @ [digit_char (n mod 10)])"

declare digits.simps [simp del]

definition py_repr_int :: "int \<Rightarrow> string" where
  "py_repr_int i = (if i < 0 then CHR ''-'' # digits (nat (- i)) else digits (nat i))"

text \<open>
  Python's \<^verbatim>\<open>repr\<close> of a \<^verbatim>\<open>str\<close>, for printable ASCII text: single quotes, unless the
  text has a single quote and no double quote; a backslash and the enclosing quote are
  escaped, as are newline, carriage return and tab. (The keys rendered here are
  attribute names; other control characters and non-ASCII text are outside this model.)
\<close>

definition squote :: char where "squote = CHR 0x27"
definition dquote :: char where "dquote = CHR 0x22"
definition backslash :: char where "backslash = CHR 0x5C"

definition escape_char :: "char \<Rightarrow> char \<Rightarrow> string" where
  "escape_char q c =
     (if c = backslash then [backslash, backslash]
      else if c = q then [backslash, q]
      else if c = CHR 0x0A then [backslash, CHR ''n'']
      else if c = CHR 0x0D then [backslash, CHR ''r'']
      else if c = CHR 0x09 then [backslash, CHR ''t'']
      else [c])"

definition py_repr_str :: "string \<Rightarrow> string" where
  "py_repr_str s =
     (let q = (if squote \<in> set s \<and> dquote \<notin> set s then dquote else squote)
      in q # concat (map (escape_char q) s) @ [q])"

definition py_repr_span :: "span \<Rightarrow> string" where
  "py_repr_span sp =
     ''{'' @ py_repr_str ''start'' @ '': '' @ py_repr_int (span_start sp) @ '', ''
       @ py_repr_str ''length'' @ '': '' @ py_repr_int (span_length sp) @ ''}''"

definition py_repr_spans :: "span list \<Rightarrow> string" where
  "py_repr_spans sps = ''['' @ join '', '' (map py_repr_span sps) @ '']''"

text \<open>\<^verbatim>\<open>str(item['_matchesInfo'])\<close>.\<close>

definition py_str :: "matches_info \<Rightarrow> string" where
  "py_str m =
     ''{'' @ join '', '' (map (\<lambda>(k, sps). py_repr_str k @ '': '' @ py_repr_spans sps) m) @ ''}''"

subsection \<open>Equality of hits\<close>

text \<open>
  \<^verbatim>\<open>item not in results\<close> compares dicts with \<^verbatim>\<open>==\<close>: two dicts are equal when they
  have the same keys with equal values, in any order. A dict is an association list
  with one entry per key.
\<close>

definition dict_eq :: "('k \<times> 'v) list \<Rightarrow> ('k \<times> 'v) list \<Rightarrow> bool" where
  "dict_eq a b = (length a = length b \<and> list_all (\<lambda>(k, v). map_of b k = Some v) a)"

definition hit_eq :: "hit \<Rightarrow> hit \<Rightarrow> bool" where
  "hit_eq h g =
     (hit_id h = hit_id g \<and> dict_eq (matchesInfo h) (matchesInfo g)
      \<and> dict_eq (hit_fields h) (hit_fields g))"

definition py_in :: "hit \<Rightarrow> hit list \<Rightarrow> bool" where
  "py_in item results = list_ex (\<lambda>r. hit_eq r item) results"

subsection \<open>Descendant models\<close>

text \<open>
  The application registry: \<^verbatim>\<open>apps.get_models()\<close> (every installed model), Python's
  \<^verbatim>\<open>issubclass\<close> on classes, and \<^verbatim>\<open>cls._meta.abstract\<close>.
  \<^verbatim>\<open>
  @lru_cache()
  def get_descendant_models(model):
      descendant_models = [
          other_model for other_model in apps.get_models() if issubclass(other_model, model)
      ]
      return descendant_models
  \<close>
\<close>

record apps =
  get_models :: "model list"
  issubclass :: "model \<Rightarrow> model \<Rightarrow> bool"
  abstract :: "model \<Rightarrow> bool"

definition get_descendant_models :: "apps \<Rightarrow> model \<Rightarrow> model list" where
  "get_descendant_models ap m =
     filter (\<lambda>other_model. issubclass ap other_model m) (get_models ap)"

text \<open>
  \<^verbatim>\<open>lru_cache()\<close> keeps the results of the 128 most recently used arguments. The cache
  is an association list, most recently used first; a hit returns the stored list
  without reading the registry.
\<close>

type_synonym lru = "(model \<times> model list) list"

definition lru_maxsize :: nat where
  "lru_maxsize = 128"

definition get_descendant_models_cached :: "apps \<Rightarrow> lru \<Rightarrow> model \<Rightarrow> model list \<times> lru" where
  "get_descendant_models_cached ap cache m =
     (case map_of cache m of
        Some result \<Rightarrow> (result, (m, result) # filter (\<lambda>(k, v). k \<noteq> m) cache)
      | None \<Rightarrow>
          (let result = get_descendant_models ap m
           in (result, take lru_maxsize ((m, result) # cache))))"

text \<open>
  The framework's test of a type being registered for search, which \<^verbatim>\<open>_search\<close> calls:
  \<^verbatim>\<open>
  def class_is_indexed(cls):
      return issubclass(cls, Indexed) and issubclass(cls, models.Model) and not cls._meta.abstract
  \<close>
\<close>

definition Indexed :: model where
  "Indexed = ''wagtail.search.index.Indexed''"

definition Model :: model where
  "Model = ''django.db.models.Model''"

definition class_is_indexed :: "apps \<Rightarrow> model \<Rightarrow> bool" where
  "class_is_indexed ap cls =
     (issubclass ap cls Indexed \<and> issubclass ap cls Model \<and> \<not> abstract ap cls)"

subsection \<open>Fan-out and merge\<close>

text \<open>
  The calls a run makes, in order: \<^verbatim>\<open>get_index_for_model(m)\<close> contacts the index service
  (it looks the index up and creates it when the lookup fails), \<^verbatim>\<open>index.search(terms)\<close>
  queries it, and the queryset built at the end reads the datastore when it is
  evaluated.
\<close>

datatype call = GetIndex model | IndexSearch model string | DatastoreQuery

text \<open>
  \<^verbatim>\<open>
  for m in models:
      index = self.backend.get_index_for_model(m)
      rv = index.search(terms)
      for item in rv['hits']:
          if item not in results:
              results.append(item)
  \<close>
  \<open>index_search m terms\<close> is \<^verbatim>\<open>rv['hits']\<close> for the index of model \<open>m\<close>. The loop carries
  the working list and the calls made so far.
\<close>

fun append_new :: "hit list \<Rightarrow> hit list \<Rightarrow> hit list" where
  "append_new results [] = results"
| "append_new results (item # rv) =
     append_new (if \<not> py_in item results then results @ [item] else results) rv"

fun fan_out ::
  "(model \<Rightarrow> string \<Rightarrow> hit list) \<Rightarrow> string \<Rightarrow> model list \<Rightarrow> hit list \<times> call list
     \<Rightarrow> hit list \<times> call list" where
  "fan_out index_search terms [] (results, log) = (results, log)"
| "fan_out index_search terms (m # models) (results, log) =
     (let log = log @ [GetIndex m];
          rv = index_search m terms;
          log = log @ [IndexSearch m terms]
      in fan_out index_search terms models (append_new results rv, log))"

subsection \<open>Scoring and sorting\<close>

text \<open>
  \<^verbatim>\<open>
  for item in results:
      item['score'] = len(str(item['_matchesInfo']))

  sorted_results = sorted(results, key=itemgetter('score'), reverse=True)
  sorted_ids = [_['id'] for _ in sorted_results]
  \<close>
  A scored hit is the hit with its \<^verbatim>\<open>score\<close> entry, which replaces a stored attribute of
  that name. Python's \<^verbatim>\<open>sorted\<close> is stable, and with \<^verbatim>\<open>reverse=True\<close> it sorts as if each
  comparison were reversed, elements with equal keys keeping their order: the list is
  reversed, sorted stably by ascending key, and reversed again.
\<close>

record scored_hit = hit +
  score :: nat

definition set_score :: "hit \<Rightarrow> scored_hit" where
  "set_score item =
     \<lparr>hit_id = hit_id item, matchesInfo = matchesInfo item,
      hit_fields = filter (\<lambda>(k, v). k \<noteq> ''score'') (hit_fields item),
      score = length (py_str (matchesInfo item))\<rparr>"

definition sorted_reverse :: "('a \<Rightarrow> nat) \<Rightarrow> 'a list \<Rightarrow> 'a list" where
  "sorted_reverse key xs = rev (sort_key key (rev xs))"

definition sorted_results :: "hit list \<Rightarrow> scored_hit list" where
  "sorted_results results = sorted_reverse score (map set_score results)"

definition sorted_ids :: "hit list \<Rightarrow> int list" where
  "sorted_ids results = map hit_id (sorted_results results)"

section \<open>Result materialisation\<close>

text \<open>
  The datastore, consumed through a queryset: rows in the datastore's default order,
  each with its primary key. \<^verbatim>\<open>filter(pk__in=sorted_ids)\<close> keeps the rows whose key is in
  the list; \<^verbatim>\<open>distinct()\<close> drops a row equal to an earlier one; \<^verbatim>\<open>[start:stop]\<close> is the
  slice of a queryset, whose bounds are never negative (\<^verbatim>\<open>stop\<close> is \<^verbatim>\<open>None\<close> when no
  upper bound was set).
\<close>

record row =
  pk :: int
  row_data :: string

text \<open>
  A queryset also carries the lookups of its \<^verbatim>\<open>WHERE\<close> clause (field, lookup name and
  value of each \<^verbatim>\<open>filter(...)\<close> applied to it), which the query compiler walks when the
  query is checked. \<open>qs_rows\<close> are the rows the queryset selects.
\<close>

record lookup =
  field_attname :: string
  lookup_name :: string
  lookup_value :: string

record queryset =
  qs_model :: model
  qs_rows :: "row list"
  qs_lookups :: "lookup list"

record query_compiler =
  qc_queryset :: queryset
  query_string :: string
  qc_fields :: "string list option"
  qc_operator :: string
  order_by_relevance :: bool
  partial_match :: bool

record results =
  query_compiler :: query_compiler
  start :: nat
  stop :: "nat option"

definition filter_pk_in :: "int list \<Rightarrow> row list \<Rightarrow> row list" where
  "filter_pk_in ids rows = filter (\<lambda>r. pk r \<in> set ids) rows"

text \<open>
  \<^verbatim>\<open>Case(*[When(pk=pk, then=pos) for pos, pk in enumerate(sorted_ids)])\<close>: the position
  of the first \<^verbatim>\<open>When\<close> whose key matches. A key that matches none gets the length of the
  list here; after \<^verbatim>\<open>filter(pk__in=sorted_ids)\<close> there is no such row.
\<close>

definition preserved_order :: "int list \<Rightarrow> int \<Rightarrow> nat" where
  "preserved_order ids p = length (takeWhile (\<lambda>x. x \<noteq> p) ids)"

text \<open>\<^verbatim>\<open>order_by(expr)\<close>: ascending by the expression, rows with equal value kept in order.\<close>

definition order_by :: "(row \<Rightarrow> nat) \<Rightarrow> row list \<Rightarrow> row list" where
  "order_by expr rows = sort_key expr rows"

fun distinct_rows :: "row list \<Rightarrow> row list" where
  "distinct_rows [] = []"
| "distinct_rows (r # rs) = r # filter (\<lambda>x. x \<noteq> r) (distinct_rows rs)"

definition py_slice :: "nat \<Rightarrow> nat option \<Rightarrow> 'a list \<Rightarrow> 'a list" where
  "py_slice lo hi xs =
     (case hi of None \<Rightarrow> drop lo xs | Some h \<Rightarrow> take (h - lo) (drop lo xs))"

subsection \<open>The collaborators and the state of a run\<close>

text \<open>
  What the backend consumes: the application registry; \<^verbatim>\<open>model.objects.all()\<close> (\<open>None\<close>
  for a class with no \<^verbatim>\<open>objects\<close> manager, where reading the attribute raises
  \<^verbatim>\<open>AttributeError\<close>); the hits the index of a model returns for a query text; and the
  framework's own validation of the search fields and the ordering of a compiled query
  (\<open>Some e\<close> when it raises). The state of a run is the memo table of
  \<^verbatim>\<open>get_descendant_models\<close> and the calls made so far.
\<close>

record services =
  registry :: apps
  objects_all :: "model \<Rightarrow> row list option"
  index_search :: "model \<Rightarrow> string \<Rightarrow> hit list"
  check_fields :: "query_compiler \<Rightarrow> error option"
  check_order_by :: "query_compiler \<Rightarrow> error option"

record world =
  lru_cache :: lru
  calls :: "call list"

text \<open>
  \<^verbatim>\<open>
  def _do_search(self):
      results = []

      qc = self.query_compiler
      model = qc.queryset.model
      models = get_descendant_models(model)
      terms = qc.query.query_string

      for m in models:
          ...
      for item in results:
          item['score'] = len(str(item['_matchesInfo']))

      sorted_results = sorted(results, key=itemgetter('score'), reverse=True)
      sorted_ids = [_['id'] for _ in sorted_results]

      if qc.order_by_relevance:
          # Retrieve the results from the db, but preserve the order by score
          preserved_order = Case(*[When(pk=pk, then=pos) for pos, pk in enumerate(sorted_ids)])
          results = qc.queryset.filter(pk__in=sorted_ids).order_by(preserved_order)
      else:
          results = qc.queryset.filter(pk__in=sorted_ids)
      results = results.distinct()[self.start:self.stop]

      return results

  def _do_count(self):
      return len(self._do_search())
  \<close>
  The queryset returned is lazy; it reads the datastore when the caller evaluates it,
  except that a queryset filtered by an empty \<^verbatim>\<open>pk__in\<close> list is known to be empty and
  is evaluated without a query.
\<close>

definition do_search :: "services \<Rightarrow> world \<Rightarrow> results \<Rightarrow> row list \<times> world" where
  "do_search sv w self =
     (let results = [];
          qc = query_compiler self;
          model = qs_model (qc_queryset qc);
          (models, cache) = get_descendant_models_cached (registry sv) (lru_cache w) model;
          terms = query_string qc;
          (results, log) = fan_out (index_search sv) terms models (results, calls w);
          ids = sorted_ids results;
          rows = (if order_by_relevance qc
                  then order_by (\<lambda>r. preserved_order ids (pk r))
                         (filter_pk_in ids (qs_rows (qc_queryset qc)))
                  else filter_pk_in ids (qs_rows (qc_queryset qc)));
          rows = py_slice (start self) (stop self) (distinct_rows rows)
      in (rows,
          \<lparr>lru_cache = cache,
           calls = (if ids = [] then log else log @ [DatastoreQuery])\<rparr>))"

definition do_count :: "services \<Rightarrow> world \<Rightarrow> results \<Rightarrow> nat \<times> world" where
  "do_count sv w self = (let (rows, w') = do_search sv w self in (length rows, w'))"

section \<open>Backend facade\<close>

text \<open>
  The class attributes of a backend. \<^verbatim>\<open>MeiliSearchBackend\<close> sets three of them in its
  class body and inherits the rest from its base class, which the argument stands for.
  \<^verbatim>\<open>
  class MeiliSearchBackend(BaseSearchBackend):

      query_compiler_class = MeiliSearchQueryCompiler
      rebuilder_class = MeiliSearchRebuilder
      results_class = MeiliSearchResults
  \<close>
\<close>

datatype compiler_class = MeiliSearchQueryCompiler

datatype rebuilder_class = MeiliSearchRebuilder

datatype results_class = MeiliSearchResultsClass

record backend =
  query_compiler_class :: "compiler_class option"
  autocomplete_query_compiler_class :: "compiler_class option"
  rebuilder_class :: "rebuilder_class option"
  results_class :: "results_class option"

definition MeiliSearchBackend :: "backend \<Rightarrow> backend" where
  "MeiliSearchBackend base =
     base\<lparr>query_compiler_class := Some MeiliSearchQueryCompiler,
          rebuilder_class := Some MeiliSearchRebuilder,
          results_class := Some MeiliSearchResultsClass\<rparr>"

datatype model_or_queryset = AModel model | AQuerySet queryset

datatype search_results = EmptySearchResults | MeiliSearchResults results

text \<open>
  The keyword arguments \<^verbatim>\<open>_search\<close> hands to the compiler class; \<^verbatim>\<open>autocomplete\<close> passes
  no \<^verbatim>\<open>partial_match\<close>, and the compiler's default is \<^verbatim>\<open>True\<close>.
\<close>

record kwargs =
  kw_fields :: "string list option"
  kw_operator :: "string option"
  kw_order_by_relevance :: bool
  kw_partial_match :: "bool option"

text \<open>Python's \<^verbatim>\<open>str.lower\<close> on ASCII text.\<close>

definition lower_char :: "char \<Rightarrow> char" where
  "lower_char c =
     (let n = (of_char c :: nat) in if 65 \<le> n \<and> n \<le> 90 then char_of (n + 32) else c)"

definition py_lower :: "string \<Rightarrow> string" where
  "py_lower s = map lower_char s"

text \<open>
  \<^verbatim>\<open>query_compiler_class(queryset, query, **kwargs)\<close>. The compiler class of the repository
  defines no constructor; the one it inherits wraps the query string in
  \<^verbatim>\<open>PlainText(query, operator=operator or 'or')\<close>, which lower-cases the operator and
  raises \<^verbatim>\<open>ValueError\<close> unless it is \<^verbatim>\<open>'or'\<close> or \<^verbatim>\<open>'and'\<close>.
\<close>

definition compile ::
  "compiler_class \<Rightarrow> queryset \<Rightarrow> string \<Rightarrow> kwargs \<Rightarrow> error + query_compiler" where
  "compile cls qs query kw =
     (let operator = (case kw_operator kw of
                        None \<Rightarrow> ''or''
                      | Some oper \<Rightarrow> if oper = [] then ''or'' else oper);
          operator = py_lower operator
      in if operator \<noteq> ''or'' \<and> operator \<noteq> ''and'' then Inl ValueError
         else Inr \<lparr>qc_queryset = qs, query_string = query, qc_fields = kw_fields kw,
                   qc_operator = operator, order_by_relevance = kw_order_by_relevance kw,
                   partial_match = (case kw_partial_match kw of None \<Rightarrow> True | Some b \<Rightarrow> b)\<rparr>)"

text \<open>
  \<^verbatim>\<open>
  class MeiliSearchQueryCompiler(BaseSearchQueryCompiler):

      def _process_filter(self, field_attname, lookup, value, check_only=False):
          import ipdb; ipdb.set_trace()
          return super()._process_filter(field_attname, lookup, value, check_only)
  \<close>
  The first statement stops the process in a debugger, or fails when the debugger is
  not installed: the call does not return a filter.
\<close>

definition process_filter :: "lookup \<Rightarrow> bool \<Rightarrow> error + unit" where
  "process_filter l check_only = Inl DebuggerTrap"

text \<open>
  \<^verbatim>\<open>search_query.check()\<close> is the framework's: it validates the search fields, walks the
  \<^verbatim>\<open>WHERE\<close> clause of the queryset calling \<^verbatim>\<open>_process_filter\<close> on each lookup (with
  \<^verbatim>\<open>check_only=True\<close>), and validates the ordering. The first exception ends it.
\<close>

fun process_filters :: "lookup list \<Rightarrow> error option" where
  "process_filters [] = None"
| "process_filters (l # ls) =
     (case process_filter l True of Inl e \<Rightarrow> Some e | Inr u \<Rightarrow> process_filters ls)"

definition check :: "services \<Rightarrow> query_compiler \<Rightarrow> error option" where
  "check sv qc =
     (case check_fields sv qc of
        Some e \<Rightarrow> Some e
      | None \<Rightarrow>
          (case process_filters (qs_lookups (qc_queryset qc)) of
             Some e \<Rightarrow> Some e
           | None \<Rightarrow> check_order_by sv qc))"

definition model_of :: "model_or_queryset \<Rightarrow> model" where
  "model_of mq = (case mq of AQuerySet qs \<Rightarrow> qs_model qs | AModel m \<Rightarrow> m)"

definition queryset_of :: "services \<Rightarrow> model_or_queryset \<Rightarrow> queryset option" where
  "queryset_of sv mq =
     (case mq of
        AQuerySet qs \<Rightarrow> Some qs
      | AModel m \<Rightarrow>
          (case objects_all sv m of
             None \<Rightarrow> None
           | Some rows \<Rightarrow> Some \<lparr>qs_model = m, qs_rows = rows, qs_lookups = []\<rparr>))"

text \<open>
  \<^verbatim>\<open>
  def _search(self, query_compiler_class, query, model_or_queryset, **kwargs):
      # Find model/queryset
      if isinstance(model_or_queryset, QuerySet):
          model = model_or_queryset.model
          queryset = model_or_queryset
      else:
          model = model_or_queryset
          queryset = model_or_queryset.objects.all()

      # Model must be a class that is in the index
      if not class_is_indexed(model):
          return EmptySearchResults()

      # Check that theres still a query string after the clean up
      if query == "":
          return EmptySearchResults()

      # Search
      search_query = query_compiler_class(
          queryset, query, **kwargs
      )

      # Check the query
      search_query.check()

      return self.results_class(self, search_query)
  \<close>
  (\<open>underscore_search\<close>, since \<open>search\<close> is the public method.) The queryset is built
  first, before the type is tested: a class with no \<^verbatim>\<open>objects\<close> manager raises there.
  Building it reads nothing: a queryset is lazy. Calling a class attribute that is
  \<^verbatim>\<open>None\<close> raises \<^verbatim>\<open>TypeError\<close>. A new results object has \<^verbatim>\<open>start = 0\<close> and
  \<^verbatim>\<open>stop = None\<close>.
\<close>

definition underscore_search ::
  "backend \<Rightarrow> services \<Rightarrow> compiler_class option \<Rightarrow> string \<Rightarrow> model_or_queryset \<Rightarrow> kwargs
     \<Rightarrow> error + search_results" where
  "underscore_search self sv qcc query mq kw =
     (case queryset_of sv mq of
        None \<Rightarrow> Inl AttributeError
      | Some queryset \<Rightarrow>
          (let model = model_of mq
           in if \<not> class_is_indexed (registry sv) model then Inr EmptySearchResults
              else if query = [] then Inr EmptySearchResults
              else (case qcc of
                      None \<Rightarrow> Inl TypeError
                    | Some cls \<Rightarrow>
                        (case compile cls queryset query kw of
                           Inl e \<Rightarrow> Inl e
                         | Inr search_query \<Rightarrow>
                             (case check sv search_query of
                                Some e \<Rightarrow> Inl e
                              | None \<Rightarrow>
                                  (case results_class self of
                                     None \<Rightarrow> Inl TypeError
                                   | Some rc \<Rightarrow>
                                       Inr (MeiliSearchResults
                                         \<lparr>query_compiler = search_query, start = 0,
                                          stop = None\<rparr>)))))))"

definition search ::
  "backend \<Rightarrow> services \<Rightarrow> string \<Rightarrow> model_or_queryset \<Rightarrow> string list option \<Rightarrow> string option
     \<Rightarrow> bool \<Rightarrow> bool \<Rightarrow> error + search_results" where
  "search self sv query mq flds oper by_relevance partial =
     underscore_search self sv (query_compiler_class self) query mq
       \<lparr>kw_fields = flds, kw_operator = oper, kw_order_by_relevance = by_relevance,
        kw_partial_match = Some partial\<rparr>"

text \<open>
  \<^verbatim>\<open>
  def autocomplete(self, query, model_or_queryset, fields=None, operator=None, order_by_relevance=True):
      if self.autocomplete_query_compiler_class is None:
          raise NotImplementedError("This search backend does not support the autocomplete API")

      return self._search(
          self.autocomplete_query_compiler_class,
          ...
  \<close>
\<close>

definition autocomplete ::
  "backend \<Rightarrow> services \<Rightarrow> string \<Rightarrow> model_or_queryset \<Rightarrow> string list option \<Rightarrow> string option
     \<Rightarrow> bool \<Rightarrow> error + search_results" where
  "autocomplete self sv query mq flds oper by_relevance =
     (if autocomplete_query_compiler_class self = None
      then Inl (NotImplementedError ''This search backend does not support the autocomplete API'')
      else underscore_search self sv (autocomplete_query_compiler_class self) query mq
             \<lparr>kw_fields = flds, kw_operator = oper,
              kw_order_by_relevance = by_relevance, kw_partial_match = None\<rparr>)"

text \<open>
  Modelled from the spec: the framework's \<^verbatim>\<open>EmptySearchResults\<close> class is not part of this
  repository; it is the explicitly-empty result, whose evaluation gives no rows and
  touches neither the index service nor the datastore. Evaluating a
  \<^verbatim>\<open>MeiliSearchResults\<close> object runs \<^verbatim>\<open>_do_search\<close>.
\<close>

definition evaluate :: "services \<Rightarrow> world \<Rightarrow> search_results \<Rightarrow> row list \<times> world" where
  "evaluate sv w r =
     (case r of EmptySearchResults \<Rightarrow> ([], w) | MeiliSearchResults self \<Rightarrow> do_search sv w self)"

section \<open>The properties, as the design document words them\<close>

text \<open>\<open>a\<close> precedes \<open>b\<close> in a list: \<open>b\<close> occurs after the first occurrence of \<open>a\<close>.\<close>

definition precedes :: "'a \<Rightarrow> 'a \<Rightarrow> 'a list \<Rightarrow> bool" where
  "precedes a b xs = (a \<in> set xs \<and> b \<in> set (tl (dropWhile (\<lambda>x. x \<noteq> a) xs)))"

text \<open>
  Keeping first occurrences: the first hit of a list stays and every later hit equal to
  it is dropped; the same holds for what remains.
\<close>

fun first_occurrences :: "hit list \<Rightarrow> hit list" where
  "first_occurrences [] = []"
| "first_occurrences (x # xs) = x # first_occurrences (filter (\<lambda>y. \<not> hit_eq x y) xs)"

text \<open>No hit of a list is equal, as a dict, to an earlier one.\<close>

definition no_equal_hits :: "hit list \<Rightarrow> bool" where
  "no_equal_hits hs = sorted_wrt (\<lambda>r item. \<not> hit_eq r item) hs"

text \<open>The hits every index of the fan-out returns, in the order they are read.\<close>

definition all_hits :: "(model \<Rightarrow> string \<Rightarrow> hit list) \<Rightarrow> string \<Rightarrow> model list \<Rightarrow> hit list" where
  "all_hits srch terms models = concat (map (\<lambda>m. srch m terms) models)"

text \<open>
  The calls of a fan-out over a list of models: for each model, in order, the lookup of
  its index and the query.
\<close>

definition fan_out_calls :: "string \<Rightarrow> model list \<Rightarrow> call list" where
  "fan_out_calls terms models = concat (map (\<lambda>m. [GetIndex m, IndexSearch m terms]) models)"




text \<open>The score of a hit: \<^verbatim>\<open>len(str(item['_matchesInfo']))\<close>.\<close>

definition hit_score :: "hit \<Rightarrow> nat" where
  "hit_score h = length (py_str (matchesInfo h))"

text \<open>
  The parts of a run of \<^verbatim>\<open>_do_search\<close> the properties speak of: the concrete models the
  fan-out queries, the merged working list, the rows of the queryset, and the results
  object with no window set.
\<close>

definition resolved_models :: "services \<Rightarrow> world \<Rightarrow> results \<Rightarrow> model list" where
  "resolved_models sv w self =
     fst (get_descendant_models_cached (registry sv) (lru_cache w)
            (qs_model (qc_queryset (query_compiler self))))"

definition merged_hits :: "services \<Rightarrow> world \<Rightarrow> results \<Rightarrow> hit list" where
  "merged_hits sv w self =
     fst (fan_out (index_search sv) (query_string (query_compiler self))
            (resolved_models sv w self) ([], calls w))"

definition datastore_rows :: "results \<Rightarrow> row list" where
  "datastore_rows self = qs_rows (qc_queryset (query_compiler self))"

definition unwindowed :: "results \<Rightarrow> results" where
  "unwindowed self = self\<lparr>start := 0, stop := None\<rparr>"

section \<open>A small site\<close>

text \<open>
  Four installed models. \<^verbatim>\<open>home.Page\<close> is indexed, and \<^verbatim>\<open>home.HomePage\<close> and
  \<^verbatim>\<open>home.SimplePage\<close> are its subclasses; \<^verbatim>\<open>sessions.Session\<close> is a model that is not
  indexed. \<^verbatim>\<open>home.AbstractPage\<close> is an abstract indexed class: it is not installed and
  has no \<^verbatim>\<open>objects\<close> manager.

  The page with key 7 is a home page: it is indexed under \<^verbatim>\<open>home.Page\<close> and under
  \<^verbatim>\<open>home.HomePage\<close>, with more attributes under the latter, so the two indexes return
  different hits for it. The page with key 9 is a simple page, whose document is the
  same in both of its indexes. Key 11 is in the index but no longer in the datastore;
  key 4 is in the datastore and matches nothing.
\<close>

definition ex_bases :: "model \<Rightarrow> model list" where
  "ex_bases c =
     (if c = ''home.Page'' then [''home.Page'', Indexed, Model]
      else if c = ''home.HomePage'' then [''home.HomePage'', ''home.Page'', Indexed, Model]
      else if c = ''home.SimplePage'' then [''home.SimplePage'', ''home.Page'', Indexed, Model]
      else if c = ''home.AbstractPage'' then [''home.AbstractPage'', Indexed, Model]
      else if c = ''sessions.Session'' then [''sessions.Session'', Model]
      else [c])"

definition ex_apps :: apps where
  "ex_apps =
     \<lparr>get_models = [''home.Page'', ''home.HomePage'', ''home.SimplePage'', ''sessions.Session''],
      issubclass = (\<lambda>c d. d \<in> set (ex_bases c)),
      abstract = (\<lambda>c. c = ''home.AbstractPage'')\<rparr>"

definition ex_page_models :: "model list" where
  "ex_page_models = [''home.Page'', ''home.HomePage'', ''home.SimplePage'']"

definition hit_page7 :: hit where
  "hit_page7 =
     \<lparr>hit_id = 7, matchesInfo = [(''title'', [\<lparr>span_start = 0, span_length = 6\<rparr>])],
      hit_fields = [(''title'', ''Hello World'')]\<rparr>"

definition hit_page9 :: hit where
  "hit_page9 =
     \<lparr>hit_id = 9,
      matchesInfo = [(''title'', [\<lparr>span_start = 0, span_length = 6\<rparr>,
                                 \<lparr>span_start = 12, span_length = 6\<rparr>])],
      hit_fields = [(''title'', ''Hello again, hello'')]\<rparr>"

definition hit_page11 :: hit where
  "hit_page11 =
     \<lparr>hit_id = 11, matchesInfo = [(''title'', [\<lparr>span_start = 3, span_length = 6\<rparr>])],
      hit_fields = [(''title'', ''Oh hello'')]\<rparr>"

definition hit_home7 :: hit where
  "hit_home7 =
     \<lparr>hit_id = 7,
      matchesInfo = [(''title'', [\<lparr>span_start = 0, span_length = 6\<rparr>]),
                     (''body'', [\<lparr>span_start = 66, span_length = 6\<rparr>,
                                \<lparr>span_start = 846, span_length = 6\<rparr>])],
      hit_fields = [(''title'', ''Hello World''), (''body'', ''Welcome'')]\<rparr>"

definition ex_index_search :: "model \<Rightarrow> string \<Rightarrow> hit list" where
  "ex_index_search m terms =
     (if terms \<noteq> ''hello'' then []
      else if m = ''home.Page'' then [hit_page7, hit_page9, hit_page11]
      else if m = ''home.HomePage'' then [hit_home7]
      else if m = ''home.SimplePage'' then [hit_page9]
      else [])"

definition row4 :: row where "row4 = \<lparr>pk = 4, row_data = ''About''\<rparr>"
definition row7 :: row where "row7 = \<lparr>pk = 7, row_data = ''Hello World''\<rparr>"
definition row9 :: row where "row9 = \<lparr>pk = 9, row_data = ''Hello again, hello''\<rparr>"

definition ex_pages :: queryset where
  "ex_pages = \<lparr>qs_model = ''home.Page'', qs_rows = [row4, row9, row7], qs_lookups = []\<rparr>"

definition ex_services :: services where
  "ex_services =
     \<lparr>registry = ex_apps,
      objects_all =
        (\<lambda>m. if m = ''home.Page'' then Some [row4, row9, row7]
             else if m = ''home.AbstractPage'' then None
             else Some []),
      index_search = ex_index_search,
      check_fields = (\<lambda>qc. None),
      check_order_by = (\<lambda>qc. None)\<rparr>"

definition ex_world :: world where
  "ex_world = \<lparr>lru_cache = [], calls = []\<rparr>"

definition ex_query :: query_compiler where
  "ex_query =
     \<lparr>qc_queryset = ex_pages, query_string = ''hello'', qc_fields = None, qc_operator = ''or'',
      order_by_relevance = True, partial_match = True\<rparr>"

definition ex_results :: results where
  "ex_results = \<lparr>query_compiler = ex_query, start = 0, stop = None\<rparr>"

definition ex_first_page :: results where
  "ex_first_page = \<lparr>query_compiler = ex_query, start = 0, stop = Some 1\<rparr>"

definition ex_cached_world :: world where
  "ex_cached_world =
     \<lparr>lru_cache = [(''home.Page'', ex_page_models)],
      calls = [DatastoreQuery]\<rparr>"

definition ex_other_services :: services where
  "ex_other_services =
     \<lparr>registry =
        \<lparr>get_models = [], issubclass = (\<lambda>c d. False), abstract = (\<lambda>c. False)\<rparr>,
      objects_all = (\<lambda>m. Some []),
      index_search =
        (\<lambda>m terms. if m = ''sessions.Session'' then [hit_page11] else ex_index_search m terms),
      check_fields = (\<lambda>qc. None),
      check_order_by = (\<lambda>qc. None)\<rparr>"

text \<open>A base class that declares the four class attributes as \<^verbatim>\<open>None\<close>.\<close>

definition base_attributes :: backend where
  "base_attributes =
     \<lparr>query_compiler_class = None, autocomplete_query_compiler_class = None,
      rebuilder_class = None, results_class = None\<rparr>"

definition ex_article :: item where
  "ex_article =
     \<lparr>item_pk = 1, item_id = Some 1,
      get_value = (\<lambda>n. if n = ''title'' then PStr ''Hello World''
                        else if n = ''id'' then PStr ''not the key''
                        else PObject False ''None''),
      get_related = (\<lambda>n. if n = ''tags''
                          then Manager
                                 [\<lparr>rel_column = (\<lambda>c. PStr ''news''),
                                   rel_value = (\<lambda>c. PStr ''news'')\<rparr>,
                                  \<lparr>rel_column = (\<lambda>c. PStr ''home''),
                                   rel_value = (\<lambda>c. PStr ''home'')\<rparr>]
                          else OtherValue)\<rparr>"

text \<open>
  An article of a model whose primary key field is named \<^verbatim>\<open>code\<close>: it has no attribute
  \<^verbatim>\<open>id\<close>. And one of such a model that defines an attribute \<^verbatim>\<open>id\<close> of its own.
\<close>

definition ex_coded_article :: item where
  "ex_coded_article = ex_article\<lparr>item_pk := 5, item_id := None\<rparr>"

definition ex_odd_article :: item where
  "ex_odd_article = ex_article\<lparr>item_pk := 5, item_id := Some 99\<rparr>"

definition ex_search_fields :: "field list" where
  "ex_search_fields =
     [SearchField ''title'', FilterField ''title'', AutocompleteField ''title'',
      SearchField ''id'', RelatedFields ''tags'' [SearchField ''name'', FilterField ''slug'']]"

text \<open>The match metadata the comment in \<^verbatim>\<open>_do_search\<close> shows, which it scores 386.\<close>

definition example_matches :: matches_info where
  "example_matches =
     [(''title_filter'', [\<lparr>span_start = 0, span_length = 6\<rparr>]),
      (''title'', [\<lparr>span_start = 0, span_length = 6\<rparr>]),
      (''excerpt'', [\<lparr>span_start = 20, span_length = 6\<rparr>]),
      (''title_ngrams'', [\<lparr>span_start = 0, span_length = 6\<rparr>]),
      (''body'', [\<lparr>span_start = 66, span_length = 6\<rparr>, \<lparr>span_start = 846, span_length = 6\<rparr>,
                  \<lparr>span_start = 1888, span_length = 6\<rparr>, \<lparr>span_start = 2250, span_length = 6\<rparr>,
                  \<lparr>span_start = 2262, span_length = 6\<rparr>, \<lparr>span_start = 2678, span_length = 6\<rparr>,
                  \<lparr>span_start = 3307, span_length = 6\<rparr>])]"

section \<open>Evaluating the small site\<close>


lemma ex_resolved:
  "resolved_models ex_services ex_world ex_results = ex_page_models"
  by code_simp

lemma ex_resolved_other:
  "resolved_models ex_other_services ex_cached_world ex_results = ex_page_models"
  by code_simp

lemma ex_terms: "query_string (query_compiler ex_results) = ''hello''"
  by code_simp

lemma ex_calls: "calls ex_world = []"
  by (simp add: ex_world_def)

lemma ex_fan_out:
  "fst (fan_out ex_index_search ''hello'' ex_page_models ([], []))
     = [hit_page7, hit_page9, hit_page11, hit_home7]"
  by code_simp

lemma ex_all_hits:
  "all_hits ex_index_search ''hello'' ex_page_models
     = [hit_page7, hit_page9, hit_page11, hit_home7, hit_page9]"
  by code_simp

lemma ex_merged:
  "merged_hits ex_services ex_world ex_results = [hit_page7, hit_page9, hit_page11, hit_home7]"
  by code_simp

lemma ex_hit_ids:
  "hit_id hit_page7 = 7 \<and> hit_id hit_page9 = 9 \<and> hit_id hit_page11 = 11 \<and> hit_id hit_home7 = 7"
  by code_simp

lemma ex_hit_scores:
  "hit_score hit_page7 = 38 \<and> hit_score hit_page9 = 66 \<and> hit_score hit_page11 = 38
     \<and> hit_score hit_home7 = 105"
  by code_simp

lemma ex_sorted:
  "sorted_results [hit_page7, hit_page9, hit_page11, hit_home7]
     = [set_score hit_home7, set_score hit_page9, set_score hit_page7, set_score hit_page11]"
  by code_simp

lemma ex_scores:
  "map score [set_score hit_home7, set_score hit_page9, set_score hit_page7, set_score hit_page11]
     = [105, 66, 38, 38]"
  by code_simp

lemma ex_rows: "fst (do_search ex_services ex_world ex_results) = [row7, row9]"
  by code_simp

lemma ex_row_pks: "pk row7 = 7 \<and> pk row9 = 9 \<and> pk row4 = 4 \<and> row7 \<noteq> row9"
  by code_simp

lemma ex_datastore: "datastore_rows ex_results = [row4, row9, row7]"
  by code_simp

lemma ex_by_relevance: "order_by_relevance (query_compiler ex_results)"
  by code_simp

lemma ex_full: "fst (do_search ex_services ex_world (unwindowed ex_first_page)) = [row7, row9]"
  by code_simp

lemma ex_first_count: "fst (do_count ex_services ex_world ex_first_page) = 1"
  by code_simp

lemma ex_indexed:
  "class_is_indexed (registry ex_services) (model_of (AModel ''home.Page'')) \<and>
   \<not> class_is_indexed (registry ex_services) (model_of (AModel ''sessions.Session'')) \<and>
   \<not> class_is_indexed (registry ex_services) (model_of (AModel ''home.AbstractPage''))"
  by code_simp

lemma ex_querysets:
  "queryset_of ex_services (AModel ''home.Page'') = Some ex_pages \<and>
   queryset_of ex_services (AModel ''sessions.Session'')
     = Some \<lparr>qs_model = ''sessions.Session'', qs_rows = [], qs_lookups = []\<rparr> \<and>
   queryset_of ex_services (AModel ''home.AbstractPage'') = None"
  by code_simp

lemma ex_compiled:
  "compile MeiliSearchQueryCompiler ex_pages ''hello''
     \<lparr>kw_fields = None, kw_operator = None, kw_order_by_relevance = True,
      kw_partial_match = Some True\<rparr> = Inr ex_query \<and>
   compile MeiliSearchQueryCompiler ex_pages ''hello''
     \<lparr>kw_fields = None, kw_operator = Some ''xor'', kw_order_by_relevance = True,
      kw_partial_match = Some True\<rparr> = Inl ValueError"
  by code_simp

lemma ex_checks: "check_fields ex_services qc = None \<and> check_order_by ex_services qc = None"
  by (simp add: ex_services_def)

lemma ex_no_lookups: "qs_lookups ex_pages = []"
  by (simp add: ex_pages_def)

lemma ex_evaluated_calls:
  "calls (snd (do_search ex_services ex_world ex_results))
     = [GetIndex ''home.Page'', IndexSearch ''home.Page'' ''hello'',
        GetIndex ''home.HomePage'', IndexSearch ''home.HomePage'' ''hello'',
        GetIndex ''home.SimplePage'', IndexSearch ''home.SimplePage'' ''hello'',
        DatastoreQuery]"
  by code_simp

lemma ex_same_hits:
  "list_all (\<lambda>m. index_search ex_services m ''hello'' = index_search ex_other_services m ''hello'')
     ex_page_models"
  by code_simp

lemma ex_document_fields:
  "get_document_fields ex_search_fields ex_article =
     [(''title'', DText ''Hello World''), (''title_filter'', DText ''Hello World''),
      (''title_ngrams'', DText ''Hello World''), (''id'', DText ''not the key''),
      (''tags__name'', DText ''news, home''), (''tags__slug_filter'', DText ''news, home'')]"
  by code_simp

lemma ex_article_keys:
  "item_pk ex_article = 1 \<and> item_id ex_article = Some 1 \<and>
   item_pk ex_coded_article = 5 \<and> item_id ex_coded_article = None \<and>
   item_pk ex_odd_article = 5 \<and> item_id ex_odd_article = Some 99"
  by (simp add: ex_article_def ex_coded_article_def ex_odd_article_def)








text \<open>
  The rendering agrees with the source's own figure: the comment in \<^verbatim>\<open>_do_search\<close> says
  that its example metadata scores 386.
\<close>

lemma documented_example_score: "length (py_str example_matches) = 386"
  by code_simp

section \<open>Field mapper and document builder: properties\<close>

lemma get_field_mapping_spec: "get_field_mapping f = spec_map_key f"
  by (cases f) (simp_all add: FILTER_SUFFIX_def AUTOCOMPLETE_SUFFIX_def)

lemma document_fields_of_keys: "map fst (document_fields_of it f) = spec_index_keys it f"
proof (cases f)
  case (RelatedFields n subs)
  show ?thesis unfolding RelatedFields
    by (cases "get_related it n")
       (simp_all add: related_key_def get_field_mapping_spec comp_def)
qed (simp_all add: FILTER_SUFFIX_def AUTOCOMPLETE_SUFFIX_def)

lemma create_document_id:
  "create_document search_fields it =
     (case item_id it of
        None \<Rightarrow> Inl AttributeError
      | Some i \<Rightarrow>
          Inr ((py_dict (get_document_fields search_fields it))(''id'' \<mapsto> DId i)))"
  by (simp add: create_document_def Let_def split: option.splits)

lemma create_document_id_is_key:
  "item_id it = Some (item_pk it) \<Longrightarrow>
     \<exists>d. create_document search_fields it = Inr d \<and> d ''id'' = Some (DId (item_pk it))"
  by (simp add: create_document_id)

text \<open>
  C7. The design document says that the built document always has the key \<^verbatim>\<open>id\<close> with
  the object's primary key as its value. The code stores \<^verbatim>\<open>item.id\<close> (set last, so that
  it replaces what a descriptor named \<^verbatim>\<open>id\<close> emitted), and \<^verbatim>\<open>_do_search\<close> later matches
  the stored values against \<^verbatim>\<open>pk\<close>. For the article whose key field is named \<^verbatim>\<open>code\<close>
  no document is built; for the one with an attribute \<^verbatim>\<open>id\<close> of its own the document
  holds 99 and the primary key is 5.
\<close>

theorem document_id_is_attribute_not_key:
  "item_pk ex_coded_article = 5 \<and>
   create_document ex_search_fields ex_coded_article = Inl AttributeError \<and>
   item_pk ex_odd_article = 5 \<and>
   map_sum id (\<lambda>d. d ''id'') (create_document ex_search_fields ex_odd_article)
     = Inr (Some (DId 99))"
  by (simp add: create_document_id ex_article_keys)

text \<open>
  C8. For every field descriptor the index key is the one the design document gives:
  the name for a Search field, the name with \<^verbatim>\<open>_filter\<close> for a Filter field, the name
  with \<^verbatim>\<open>_ngrams\<close> for an Autocomplete field, and, for a flattened related field, the
  related name joined to the sub-field's mapped key by \<^verbatim>\<open>__\<close>. The keys of the pairs a
  schema emits for an object are these keys, in the order of the descriptors.
\<close>

theorem index_keys_follow_spec:
  "get_field_mapping f = spec_map_key f \<and>
   map fst (document_fields_of it f) = spec_index_keys it f \<and>
   map fst (get_document_fields search_fields it)
     = concat (map (spec_index_keys it) search_fields)"
  by (simp add: get_field_mapping_spec get_document_fields_def map_concat comp_def
        document_fields_of_keys)

theorem index_keys_follow_spec_witness:
  "get_field_mapping (FilterField ''title'') = ''title_filter'' \<and>
   map fst (get_document_fields ex_search_fields ex_article)
     = [''title'', ''title_filter'', ''title_ngrams'', ''id'', ''tags__name'', ''tags__slug_filter'']"
  using index_keys_follow_spec [of "FilterField ''title''" ex_article ex_search_fields]
  by (simp add: ex_document_fields)

section \<open>Merging\<close>

lemma py_in_iff: "py_in item results \<longleftrightarrow> (\<exists>r\<in>set results. hit_eq r item)"
  by (simp add: py_in_def list_ex_iff)

lemma py_in_snoc: "py_in y (acc @ [x]) \<longleftrightarrow> py_in y acc \<or> hit_eq x y"
  by (simp add: py_in_def)

lemma no_equal_hits_snoc:
  "no_equal_hits (results @ [item]) \<longleftrightarrow> no_equal_hits results \<and> \<not> py_in item results"
  by (auto simp: no_equal_hits_def sorted_wrt_append py_in_iff)

lemma append_new_no_equal:
  "no_equal_hits results \<Longrightarrow> no_equal_hits (append_new results rv)"
  by (induction rv arbitrary: results) (simp_all add: no_equal_hits_snoc)

lemma append_new_subseq:
  "\<exists>ys. append_new results rv = results @ ys \<and> subseq ys rv"
proof (induction rv arbitrary: results)
  case Nil
  then show ?case by simp
next
  case (Cons item rv)
  show ?case
  proof (cases "py_in item results")
    case True
    from Cons.IH [of results] obtain ys where
      "append_new results rv = results @ ys" "subseq ys rv" by blast
    with True show ?thesis by auto
  next
    case False
    from Cons.IH [of "results @ [item]"] obtain ys where
      "append_new (results @ [item]) rv = (results @ [item]) @ ys" "subseq ys rv" by blast
    with False show ?thesis by (auto intro!: exI [of _ "item # ys"])
  qed
qed

lemma append_new_keeps: "set results \<subseteq> set (append_new results rv)"
  by (induction rv arbitrary: results) (auto, force)

lemma py_in_mono: "py_in h xs \<Longrightarrow> set xs \<subseteq> set ys \<Longrightarrow> py_in h ys"
  by (auto simp: py_in_iff)

lemma append_new_covers:
  "h \<in> set rv \<Longrightarrow> h \<in> set (append_new results rv) \<or> py_in h (append_new results rv)"
proof (induction rv arbitrary: results)
  case Nil
  then show ?case by simp
next
  case (Cons item rv)
  show ?case
  proof (cases "h = item")
    case True
    show ?thesis
    proof (cases "py_in item results")
      case True
      then have "py_in item (append_new results rv)"
        using append_new_keeps py_in_mono by blast
      with True \<open>h = item\<close> show ?thesis by simp
    next
      case False
      have "item \<in> set (append_new (results @ [item]) rv)"
        using append_new_keeps [of "results @ [item]" rv] by auto
      with False \<open>h = item\<close> show ?thesis by simp
    qed
  next
    case False
    with Cons.prems have "h \<in> set rv" by simp
    then show ?thesis using Cons.IH by simp
  qed
qed

lemma append_new_append:
  "append_new results (a @ b) = append_new (append_new results a) b"
  by (induction a arbitrary: results) simp_all

text \<open>
  The loop with its accumulator keeps exactly the first occurrences: what it appends
  to the working list is the first occurrences of the hits that equal none already
  there.
\<close>

lemma append_new_first_occurrences:
  "append_new acc xs = acc @ first_occurrences (filter (\<lambda>y. \<not> py_in y acc) xs)"
proof (induction xs arbitrary: acc)
  case Nil
  then show ?case by simp
next
  case (Cons x xs)
  show ?case
  proof (cases "py_in x acc")
    case True
    then show ?thesis using Cons.IH [of acc] by simp
  next
    case False
    have "filter (\<lambda>y. \<not> py_in y (acc @ [x])) xs
        = filter (\<lambda>y. \<not> hit_eq x y) (filter (\<lambda>y. \<not> py_in y acc) xs)"
      by (induction xs) (auto simp: py_in_snoc)
    then show ?thesis using False Cons.IH [of "acc @ [x]"] by simp
  qed
qed

lemma fan_out_eq:
  "fan_out srch terms models (results, log) =
     (append_new results (all_hits srch terms models), log @ fan_out_calls terms models)"
  by (induction models arbitrary: results log)
     (simp_all add: all_hits_def fan_out_calls_def append_new_append Let_def)

lemma all_hits_cong:
  "\<forall>m \<in> set models. s1 m terms = s2 m terms \<Longrightarrow>
     all_hits s1 terms models = all_hits s2 terms models"
  by (induction models) (simp_all add: all_hits_def)

lemma merged_hits_eq:
  "merged_hits sv w self =
     append_new [] (all_hits (index_search sv) (query_string (query_compiler self))
       (resolved_models sv w self))"
  by (simp add: merged_hits_def fan_out_eq)

text \<open>
  C1 as stated fails: the indexes of \<^verbatim>\<open>home.Page\<close> and \<^verbatim>\<open>home.HomePage\<close> return different
  hits for the page with key 7, and the merged working list keeps both.
\<close>

theorem merged_hits_share_id:
  "\<not> distinct (map hit_id (fst (fan_out ex_index_search ''hello'' ex_page_models ([], []))))"
  unfolding ex_fan_out by (simp add: ex_hit_ids)

text \<open>
  C1, amended. For every search, after the fan-out over the concrete models and the
  merge of their hit lists, no two hits of the merged working list are equal as whole
  hits (same \<^verbatim>\<open>id\<close>, same match metadata, same stored attributes): a hit equal to one
  already in the list is skipped, so the first occurrence wins and later equal hits are
  dropped. The merged list is the list of first occurrences of the hits read, in the
  order they were read: a subsequence of them, and every hit read is in it or equal to
  one in it.
\<close>

theorem merge_keeps_first_occurrences:
  "fst (fan_out srch terms models ([], log)) = first_occurrences (all_hits srch terms models) \<and>
   no_equal_hits (fst (fan_out srch terms models ([], log))) \<and>
   subseq (fst (fan_out srch terms models ([], log))) (all_hits srch terms models) \<and>
   (\<forall>h \<in> set (all_hits srch terms models).
      h \<in> set (fst (fan_out srch terms models ([], log)))
      \<or> py_in h (fst (fan_out srch terms models ([], log))))"
proof -
  let ?all = "all_hits srch terms models"
  have m: "fst (fan_out srch terms models ([], log)) = append_new [] ?all"
    by (simp add: fan_out_eq)
  have "\<not> py_in y []" for y by (simp add: py_in_def)
  then have f: "append_new [] ?all = first_occurrences ?all"
    using append_new_first_occurrences [of "[]" ?all] by simp
  have n: "no_equal_hits (append_new [] ?all)"
    by (rule append_new_no_equal) (simp add: no_equal_hits_def)
  have s: "subseq (append_new [] ?all) ?all"
    using append_new_subseq [of "[]" ?all] by auto
  have c: "h \<in> set (append_new [] ?all) \<or> py_in h (append_new [] ?all)"
    if "h \<in> set ?all" for h
    using that by (rule append_new_covers)
  show ?thesis unfolding m
    by (intro conjI ballI) (fact f, fact n, fact s, erule c)
qed

theorem merge_keeps_first_occurrences_witness:
  "hit_page9 \<in> set (all_hits ex_index_search ''hello'' ex_page_models) \<and>
   first_occurrences [hit_page7, hit_page9, hit_page11, hit_home7, hit_page9]
     = [hit_page7, hit_page9, hit_page11, hit_home7] \<and>
   no_equal_hits [hit_page7, hit_page9, hit_page11, hit_home7] \<and>
   subseq [hit_page7, hit_page9, hit_page11, hit_home7]
     [hit_page7, hit_page9, hit_page11, hit_home7, hit_page9]"
proof -
  note t = merge_keeps_first_occurrences
    [of ex_index_search "''hello''" ex_page_models "[]", unfolded ex_fan_out ex_all_hits]
  have a: "hit_page9 \<in> set (all_hits ex_index_search ''hello'' ex_page_models)"
    unfolding ex_all_hits by simp
  note b = t [THEN conjunct1, symmetric]
  note c = t [THEN conjunct2, THEN conjunct1]
  note d = t [THEN conjunct2, THEN conjunct2, THEN conjunct1]
  show ?thesis by (intro conjI a b c d)
qed

section \<open>Scoring and sorting: properties\<close>

lemma sorted_reverse_mset: "mset (sorted_reverse key xs) = mset xs"
  by (simp add: sorted_reverse_def)

lemma sorted_reverse_desc: "sorted_wrt (\<lambda>a b. key b \<le> key a) (sorted_reverse key xs)"
proof -
  have "sorted (map key (sort_key key (rev xs)))" by simp
  then have "sorted_wrt (\<lambda>a b. key a \<le> key b) (sort_key key (rev xs))"
    by (simp add: sorted_wrt_map)
  then show ?thesis by (simp add: sorted_reverse_def sorted_wrt_rev)
qed

lemma sorted_reverse_stable:
  "filter (\<lambda>y. key y = k) (sorted_reverse key xs) = filter (\<lambda>y. key y = k) xs"
proof -
  have "filter (\<lambda>y. key y = k) (sorted_reverse key xs)
        = rev (filter (\<lambda>y. key y = k) (sort_key key (rev xs)))"
    by (simp add: sorted_reverse_def rev_filter)
  also have "\<dots> = rev (filter (\<lambda>y. key y = k) (rev xs))"
    by (simp only: sort_key_stable)
  also have "\<dots> = filter (\<lambda>y. key y = k) xs"
    by (simp add: rev_filter)
  finally show ?thesis .
qed

lemma set_sorted_results: "set (sorted_results results) = set_score ` set results"
  by (simp add: sorted_results_def sorted_reverse_def)

lemma set_sorted_ids: "set (sorted_ids merged) = hit_id ` set merged"
  by (auto simp: sorted_ids_def set_sorted_results set_score_def image_iff)

text \<open>
  C3. For every merged hit list, the score of each retained hit is the length of the
  textual rendering of its match metadata; the sorted list holds the same hits, by
  score descending, and the hits of any one score are in the order they had in the
  merged list.
\<close>

theorem scores_sorted_descending_stable:
  "(\<forall>h \<in> set (sorted_results results). score h = length (py_str (matchesInfo h))) \<and>
   sorted_wrt (\<lambda>a b. score b \<le> score a) (sorted_results results) \<and>
   (\<forall>k. filter (\<lambda>h. score h = k) (sorted_results results)
          = filter (\<lambda>h. score h = k) (map set_score results)) \<and>
   mset (sorted_results results) = mset (map set_score results)"
proof (intro conjI allI ballI)
  fix h assume "h \<in> set (sorted_results results)"
  then show "score h = length (py_str (matchesInfo h))"
    by (auto simp: set_sorted_results set_score_def)
qed (simp_all add: sorted_results_def sorted_reverse_desc sorted_reverse_stable
       sorted_reverse_mset)

theorem scores_sorted_descending_stable_witness:
  "sorted_results [hit_page7, hit_page9, hit_page11, hit_home7]
     = [set_score hit_home7, set_score hit_page9, set_score hit_page7, set_score hit_page11] \<and>
   map score (sorted_results [hit_page7, hit_page9, hit_page11, hit_home7]) = [105, 66, 38, 38] \<and>
   sorted_wrt (\<lambda>a b. score b \<le> score a)
     (sorted_results [hit_page7, hit_page9, hit_page11, hit_home7]) \<and>
   list_all (\<lambda>h. score h = length (py_str (matchesInfo h)))
     (sorted_results [hit_page7, hit_page9, hit_page11, hit_home7])"
  using scores_sorted_descending_stable [of "[hit_page7, hit_page9, hit_page11, hit_home7]"]
    ex_scores
  by (simp add: ex_sorted)

section \<open>Materialisation: properties\<close>

lemma do_search_rows:
  "fst (do_search sv w self) =
     py_slice (start self) (stop self)
       (distinct_rows
          (if order_by_relevance (query_compiler self)
           then order_by (\<lambda>r. preserved_order (sorted_ids (merged_hits sv w self)) (pk r))
                  (filter_pk_in (sorted_ids (merged_hits sv w self)) (datastore_rows self))
           else filter_pk_in (sorted_ids (merged_hits sv w self)) (datastore_rows self)))"
  by (simp add: do_search_def merged_hits_def resolved_models_def datastore_rows_def Let_def
           fan_out_eq split: prod.splits)

lemma sorted_ids_empty: "sorted_ids merged = [] \<longleftrightarrow> merged = []"
proof -
  have "length (sorted_ids merged) = length merged"
    by (simp add: sorted_ids_def sorted_results_def sorted_reverse_def)
  then show ?thesis by (metis length_0_conv)
qed

lemma do_search_calls:
  "calls (snd (do_search sv w self)) =
     calls w @ fan_out_calls (query_string (query_compiler self)) (resolved_models sv w self)
       @ (if merged_hits sv w self = [] then [] else [DatastoreQuery])"
  by (simp add: do_search_def merged_hits_def resolved_models_def fan_out_eq sorted_ids_empty
        Let_def split: prod.splits)

lemma do_count_length: "fst (do_count sv w self) = length (fst (do_search sv w self))"
  by (simp add: do_count_def split: prod.splits)

lemma set_distinct_rows: "set (distinct_rows rs) = set rs"
  by (induction rs) auto

lemma subseq_distinct_rows: "subseq (distinct_rows rs) rs"
proof (induction rs)
  case Nil
  then show ?case by simp
next
  case (Cons r rs)
  have "subseq (filter (\<lambda>x. x \<noteq> r) (distinct_rows rs)) (distinct_rows rs)" by simp
  then have "subseq (filter (\<lambda>x. x \<noteq> r) (distinct_rows rs)) rs"
    using Cons.IH by (rule subseq_order.order_trans)
  then show ?case by simp
qed

lemma subseq_py_slice: "subseq (py_slice lo hi xs) xs"
proof -
  have d: "subseq (drop lo xs) xs" by (simp add: sublist_imp_subseq)
  have "subseq (take n (drop lo xs)) (drop lo xs)" for n by (simp add: sublist_imp_subseq)
  then have "subseq (take n (drop lo xs)) xs" for n
    using d by (rule subseq_order.order_trans)
  with d show ?thesis by (simp add: py_slice_def split: option.splits)
qed

lemma subseq_window: "subseq (py_slice lo hi (distinct_rows rs)) rs"
  by (rule subseq_order.order_trans [OF subseq_py_slice subseq_distinct_rows])

lemma set_py_slice: "set (py_slice lo hi xs) \<subseteq> set xs"
  using subseq_py_slice [of lo hi xs] by (auto dest: list_emb_set)

lemma sorted_wrt_subseq: "subseq xs ys \<Longrightarrow> sorted_wrt P ys \<Longrightarrow> sorted_wrt P xs"
proof (induction rule: list_emb.induct)
  case (list_emb_Nil ys)
  then show ?case by simp
next
  case (list_emb_Cons xs ys y)
  then show ?case by simp
next
  case (list_emb_Cons2 x y xs ys)
  then show ?case using list_emb_set by fastforce
qed

lemma sorted_key_precedes:
  "sorted (map f xs) \<Longrightarrow> a \<in> set xs \<Longrightarrow> b \<in> set xs \<Longrightarrow> f a < (f b :: nat)
     \<Longrightarrow> precedes a b xs"
proof (induction xs)
  case Nil
  then show ?case by simp
next
  case (Cons x xs)
  show ?case
  proof (cases "x = a")
    case True
    with Cons.prems show ?thesis by (auto simp: precedes_def)
  next
    case False
    with Cons.prems have a: "a \<in> set xs" by simp
    have "b \<noteq> x"
    proof
      assume "b = x"
      with Cons.prems(1) a have "f b \<le> f a" by simp
      with Cons.prems(4) show False by simp
    qed
    with Cons.prems have b: "b \<in> set xs" by simp
    from Cons.prems(1) have "sorted (map f xs)" by simp
    from Cons.IH [OF this a b Cons.prems(4)] False show ?thesis
      by (simp add: precedes_def)
  qed
qed

lemma first_position_by_score:
  "sorted_wrt (\<lambda>x y. score y \<le> score x) sr \<Longrightarrow> hA \<in> set sr \<Longrightarrow>
   \<forall>h \<in> set sr. hit_id h = b \<longrightarrow> score h < score hA \<Longrightarrow>
   preserved_order (map hit_id sr) (hit_id hA) < preserved_order (map hit_id sr) b"
proof (induction sr)
  case Nil
  then show ?case by simp
next
  case (Cons x sr)
  show ?case
  proof (cases "hit_id x = hit_id hA")
    case True
    have "hit_id x \<noteq> b"
    proof
      assume "hit_id x = b"
      with True Cons.prems(2,3) have "score hA < score hA" by auto
      then show False by simp
    qed
    with True show ?thesis by (simp add: preserved_order_def)
  next
    case False
    with Cons.prems(2) have hA: "hA \<in> set sr" by auto
    have "hit_id x \<noteq> b"
    proof
      assume "hit_id x = b"
      with Cons.prems(3) have "score x < score hA" by simp
      moreover from Cons.prems(1) hA have "score hA \<le> score x" by simp
      ultimately show False by simp
    qed
    moreover have
      "preserved_order (map hit_id sr) (hit_id hA) < preserved_order (map hit_id sr) b"
      using Cons.IH Cons.prems hA by simp
    ultimately show ?thesis using False by (simp add: preserved_order_def)
  qed
qed

lemma sorted_ids_position:
  assumes "hA \<in> set merged"
    and "\<forall>hB \<in> set merged. hit_id hB = b \<longrightarrow> hit_score hB < hit_score hA"
  shows "preserved_order (sorted_ids merged) (hit_id hA) < preserved_order (sorted_ids merged) b"
proof -
  let ?sr = "sorted_results merged"
  have s: "sorted_wrt (\<lambda>x y. score y \<le> score x) ?sr"
    by (simp add: sorted_results_def sorted_reverse_desc)
  have a: "set_score hA \<in> set ?sr" using assms(1) by (simp add: set_sorted_results)
  have b: "\<forall>h \<in> set ?sr. hit_id h = b \<longrightarrow> score h < score (set_score hA)"
    using assms(2) by (auto simp: set_sorted_results set_score_def hit_score_def)
  have "preserved_order (map hit_id ?sr) (hit_id (set_score hA))
      < preserved_order (map hit_id ?sr) b"
    using s a b by (rule first_position_by_score)
  then show ?thesis by (simp add: sorted_ids_def set_score_def)
qed

lemma ordered_rows_sorted:
  "sorted (map f (py_slice lo hi (distinct_rows (order_by f rows))))"
proof -
  have "sorted_wrt (\<lambda>x y. f x \<le> f y) (order_by f rows)"
    using sorted_sort_key [of f rows]
    by (simp add: order_by_def sorted_wrt_map del: sorted_sort_key)
  moreover have "subseq (py_slice lo hi (distinct_rows (order_by f rows))) (order_by f rows)"
    by (rule subseq_window)
  ultimately have
    "sorted_wrt (\<lambda>x y. f x \<le> f y) (py_slice lo hi (distinct_rows (order_by f rows)))"
    by (rule sorted_wrt_subseq [rotated])
  then show ?thesis by (simp add: sorted_wrt_map)
qed

lemma do_search_rows_subset:
  assumes "r \<in> set (fst (do_search sv w self))"
  shows "r \<in> set (datastore_rows self) \<and> pk r \<in> hit_id ` set (merged_hits sv w self)"
proof -
  let ?ids = "sorted_ids (merged_hits sv w self)"
  let ?base = "filter_pk_in ?ids (datastore_rows self)"
  let ?f = "\<lambda>r. preserved_order ?ids (pk r)"
  have "set (fst (do_search sv w self)) \<subseteq> set ?base"
  proof (cases "order_by_relevance (query_compiler self)")
    case True
    then have "fst (do_search sv w self) =
        py_slice (start self) (stop self) (distinct_rows (order_by ?f ?base))"
      by (simp add: do_search_rows)
    moreover have "set (py_slice (start self) (stop self) (distinct_rows (order_by ?f ?base)))
        \<subseteq> set (distinct_rows (order_by ?f ?base))"
      by (rule set_py_slice)
    moreover have "set (distinct_rows (order_by ?f ?base)) = set ?base"
      by (simp add: set_distinct_rows order_by_def)
    ultimately show ?thesis by simp
  next
    case False
    then have "fst (do_search sv w self) =
        py_slice (start self) (stop self) (distinct_rows ?base)"
      by (simp add: do_search_rows)
    moreover have "set (py_slice (start self) (stop self) (distinct_rows ?base))
        \<subseteq> set (distinct_rows ?base)"
      by (rule set_py_slice)
    ultimately show ?thesis by (simp add: set_distinct_rows)
  qed
  with assms have "r \<in> set ?base" by blast
  then show ?thesis by (simp add: filter_pk_in_def set_sorted_ids)
qed

lemma merged_hits_unwindowed: "merged_hits sv w (unwindowed self) = merged_hits sv w self"
  by (simp add: merged_hits_eq resolved_models_def unwindowed_def)

lemma do_search_unwindowed:
  "fst (do_search sv w self)
     = py_slice (start self) (stop self) (fst (do_search sv w (unwindowed self)))"
proof -
  have "py_slice 0 None xs = xs" for xs :: "row list" by (simp add: py_slice_def)
  then show ?thesis
    by (simp add: do_search_rows merged_hits_unwindowed)
       (simp add: unwindowed_def datastore_rows_def)
qed

text \<open>
  C4 as stated fails when a record has more than one hit: the page with key 9 has a hit
  of score 66, the page with key 7 has hits of score 105 and 38, and the page with key 7
  comes first in the output although 66 is more than 38.
\<close>

theorem relevance_order_fails_for_some_hit:
  "order_by_relevance (query_compiler ex_results) \<and>
   row9 \<in> set (fst (do_search ex_services ex_world ex_results)) \<and>
   row7 \<in> set (fst (do_search ex_services ex_world ex_results)) \<and>
   hit_page9 \<in> set (merged_hits ex_services ex_world ex_results) \<and> hit_id hit_page9 = pk row9 \<and>
   hit_page7 \<in> set (merged_hits ex_services ex_world ex_results) \<and> hit_id hit_page7 = pk row7 \<and>
   hit_score hit_page7 < hit_score hit_page9 \<and>
   \<not> precedes row9 row7 (fst (do_search ex_services ex_world ex_results))"
  by (simp add: ex_rows ex_merged ex_hit_scores ex_hit_ids ex_row_pks ex_by_relevance
        precedes_def)

text \<open>
  C4, amended. When \<^verbatim>\<open>order_by_relevance\<close> is true, for any two records A and B of the
  materialized output such that some hit of A scores more than every hit of B (the best
  hit of A scores more than the best hit of B), A precedes B in the output. Every
  record of the output is a row of the queryset whose key is the \<^verbatim>\<open>id\<close> of a merged hit,
  so an id of the scored set that the datastore does not hold is absent from the
  output, with no error. When \<^verbatim>\<open>order_by_relevance\<close> is false the output is a
  subsequence of the queryset's rows: the datastore's order is left in place.
\<close>

theorem relevance_order_by_best_hit:
  "(order_by_relevance (query_compiler self) \<longrightarrow>
      (\<forall>A \<in> set (fst (do_search sv w self)). \<forall>B \<in> set (fst (do_search sv w self)).
         \<forall>hA \<in> set (merged_hits sv w self).
           hit_id hA = pk A \<and>
           (\<forall>hB \<in> set (merged_hits sv w self).
              hit_id hB = pk B \<longrightarrow> hit_score hB < hit_score hA)
           \<longrightarrow> precedes A B (fst (do_search sv w self)))) \<and>
   (\<forall>r \<in> set (fst (do_search sv w self)).
      r \<in> set (datastore_rows self) \<and> pk r \<in> hit_id ` set (merged_hits sv w self)) \<and>
   (\<not> order_by_relevance (query_compiler self) \<longrightarrow>
      subseq (fst (do_search sv w self)) (datastore_rows self))"
proof (intro conjI impI ballI)
  fix A B hA
  assume obr: "order_by_relevance (query_compiler self)"
    and A: "A \<in> set (fst (do_search sv w self))" and B: "B \<in> set (fst (do_search sv w self))"
    and hA: "hA \<in> set (merged_hits sv w self)"
    and sc: "hit_id hA = pk A \<and>
      (\<forall>hB \<in> set (merged_hits sv w self). hit_id hB = pk B \<longrightarrow> hit_score hB < hit_score hA)"
  let ?ids = "sorted_ids (merged_hits sv w self)"
  let ?f = "\<lambda>r. preserved_order ?ids (pk r)"
  have rows: "fst (do_search sv w self) =
      py_slice (start self) (stop self)
        (distinct_rows (order_by ?f (filter_pk_in ?ids (datastore_rows self))))"
    using obr by (simp add: do_search_rows)
  have s: "sorted (map ?f (fst (do_search sv w self)))"
    unfolding rows by (rule ordered_rows_sorted)
  have lt: "?f A < ?f B"
    using sorted_ids_position [OF hA, of "pk B"] sc by simp
  show "precedes A B (fst (do_search sv w self))"
    by (rule sorted_key_precedes [OF s A B lt])
next
  fix r assume "r \<in> set (fst (do_search sv w self))"
  then show "r \<in> set (datastore_rows self)" "pk r \<in> hit_id ` set (merged_hits sv w self)"
    using do_search_rows_subset by blast+
next
  assume "\<not> order_by_relevance (query_compiler self)"
  then have "fst (do_search sv w self) =
      py_slice (start self) (stop self)
        (distinct_rows (filter_pk_in (sorted_ids (merged_hits sv w self)) (datastore_rows self)))"
    by (simp add: do_search_rows)
  moreover have "subseq (py_slice (start self) (stop self)
        (distinct_rows (filter_pk_in (sorted_ids (merged_hits sv w self)) (datastore_rows self))))
      (datastore_rows self)"
  proof -
    have "subseq (filter_pk_in (sorted_ids (merged_hits sv w self)) (datastore_rows self))
            (datastore_rows self)"
      by (simp add: filter_pk_in_def)
    then show ?thesis
      by (rule subseq_order.order_trans [OF subseq_window])
  qed
  ultimately show "subseq (fst (do_search sv w self)) (datastore_rows self)" by simp
qed

theorem relevance_order_by_best_hit_witness:
  "order_by_relevance (query_compiler ex_results) \<and>
   hit_home7 \<in> set (merged_hits ex_services ex_world ex_results) \<and>
   hit_page11 \<in> set (merged_hits ex_services ex_world ex_results) \<and>
   fst (do_search ex_services ex_world ex_results) = [row7, row9] \<and>
   precedes row7 row9 (fst (do_search ex_services ex_world ex_results))"
  using relevance_order_by_best_hit [of ex_results ex_services ex_world]
  by (simp add: ex_rows ex_merged ex_hit_scores ex_hit_ids ex_row_pks ex_by_relevance)

text \<open>
  C5 as stated fails: on the first page of the small site's results (\<^verbatim>\<open>stop = 1\<close>) the
  count is 1, while the full sequence has two records.
\<close>

theorem count_depends_on_window:
  "fst (do_count ex_services ex_world ex_first_page)
     \<noteq> length (fst (do_search ex_services ex_world (unwindowed ex_first_page)))"
  by (simp add: ex_full ex_first_count)

text \<open>
  C5, amended. For every search request, the count operation returns the length of the
  materialized, deduplicated, ordered result sequence after the offset/limit window of
  the results object has been applied; it is the length of the full sequence when no
  window is set (\<^verbatim>\<open>start = 0\<close>, \<^verbatim>\<open>stop = None\<close>).
\<close>

theorem count_is_windowed_length:
  "fst (do_count sv w self)
     = length (py_slice (start self) (stop self) (fst (do_search sv w (unwindowed self)))) \<and>
   (start self = 0 \<and> stop self = None \<longrightarrow>
      fst (do_count sv w self) = length (fst (do_search sv w (unwindowed self))))"
proof -
  have "py_slice 0 None xs = xs" for xs :: "row list" by (simp add: py_slice_def)
  then show ?thesis
    using do_search_unwindowed [of sv w self] by (auto simp: do_count_length)
qed

theorem count_is_windowed_length_witness:
  "start ex_results = 0 \<and> stop ex_results = None \<and>
   fst (do_count ex_services ex_world ex_results)
     = length (fst (do_search ex_services ex_world (unwindowed ex_results))) \<and>
   fst (do_count ex_services ex_world ex_first_page) = 1"
  using count_is_windowed_length [of ex_services ex_world ex_results]
  by (simp add: ex_results_def ex_first_count)

section \<open>Descendant models: properties\<close>




section \<open>Backend facade: properties\<close>

lemma search_unfolded:
  "search (MeiliSearchBackend base) sv query mq flds oper by_relevance partial =
     (case queryset_of sv mq of
        None \<Rightarrow> Inl AttributeError
      | Some qs \<Rightarrow>
          if \<not> class_is_indexed (registry sv) (model_of mq) \<or> query = []
          then Inr EmptySearchResults
          else (case compile MeiliSearchQueryCompiler qs query
                       \<lparr>kw_fields = flds, kw_operator = oper,
                        kw_order_by_relevance = by_relevance,
                        kw_partial_match = Some partial\<rparr> of
                  Inl e \<Rightarrow> Inl e
                | Inr qc \<Rightarrow>
                    (case check sv qc of
                       Some e \<Rightarrow> Inl e
                     | None \<Rightarrow>
                         Inr (MeiliSearchResults
                           \<lparr>query_compiler = qc, start = 0, stop = None\<rparr>))))"
  by (simp add: search_def underscore_search_def MeiliSearchBackend_def Let_def
           split: option.splits sum.splits)

lemma compile_queryset: "compile cls qs query kw = Inr qc \<Longrightarrow> qc_queryset qc = qs"
  by (auto simp: compile_def Let_def split: if_splits)

lemma check_without_lookups:
  "qs_lookups (qc_queryset qc) = [] \<Longrightarrow>
     check sv qc = (case check_fields sv qc of Some e \<Rightarrow> Some e | None \<Rightarrow> check_order_by sv qc)"
  by (simp add: check_def split: option.splits)

text \<open>
  On a queryset that carries a filter the check reaches the \<^verbatim>\<open>_process_filter\<close> of the
  repository, and ends there.
\<close>

lemma check_filtered_queryset:
  "check_fields sv qc = None \<Longrightarrow> qs_lookups (qc_queryset qc) \<noteq> [] \<Longrightarrow>
     check sv qc = Some DebuggerTrap"
  by (cases "qs_lookups (qc_queryset qc)") (simp_all add: check_def process_filter_def)

text \<open>
  C2 as stated fails: for the indexed type \<^verbatim>\<open>home.Page\<close> and the query \<^verbatim>\<open>hello\<close> with the
  operator \<^verbatim>\<open>xor\<close> no query is built or run, the call raises \<^verbatim>\<open>ValueError\<close>; and for the
  unregistered class \<^verbatim>\<open>home.AbstractPage\<close> the call raises \<^verbatim>\<open>AttributeError\<close> instead of
  returning the empty result.
\<close>

theorem search_raises_instead:
  "class_is_indexed (registry ex_services) (model_of (AModel ''home.Page'')) \<and>
   ''hello'' \<noteq> [] \<and>
   search (MeiliSearchBackend base_attributes) ex_services ''hello'' (AModel ''home.Page'')
       None (Some ''xor'') True True
     = Inl ValueError \<and>
   \<not> class_is_indexed (registry ex_services) (model_of (AModel ''home.AbstractPage'')) \<and>
   search (MeiliSearchBackend base_attributes) ex_services ''hello''
       (AModel ''home.AbstractPage'') None None True True
     = Inl AttributeError"
  by (simp add: search_unfolded ex_indexed ex_querysets ex_compiled)

text \<open>
  C2, amended. For every call to \<^verbatim>\<open>search\<close> with a queryset, or with a model class that has
  an \<^verbatim>\<open>objects\<close> manager: when the content type is not registered for search, or the
  query string is the empty string, the backend returns the explicitly-empty result
  set, whose evaluation gives no rows and makes no call to the index service or the
  datastore. Otherwise, when the queryset carries no filter, it builds the query
  (which raises \<^verbatim>\<open>ValueError\<close> unless the operator is absent, empty, or \<^verbatim>\<open>or\<close> or \<^verbatim>\<open>and\<close>
  in any letter case), runs the framework's checks of it (whose exception propagates)
  and returns the results object of that query, with no window set. Evaluating that
  object runs \<^verbatim>\<open>_do_search\<close>: it looks up and queries the index of every concrete type,
  merges the hits read, and queries the datastore when there is a hit. A model class
  with no \<^verbatim>\<open>objects\<close> manager raises \<^verbatim>\<open>AttributeError\<close> before either test.
\<close>

theorem search_rejects_or_builds_query:
  "(queryset_of sv mq = None \<longrightarrow>
      search (MeiliSearchBackend base) sv query mq flds oper by_relevance partial
        = Inl AttributeError) \<and>
   (queryset_of sv mq \<noteq> None \<and>
    (\<not> class_is_indexed (registry sv) (model_of mq) \<or> query = []) \<longrightarrow>
      search (MeiliSearchBackend base) sv query mq flds oper by_relevance partial
        = Inr EmptySearchResults) \<and>
   evaluate sv w EmptySearchResults = ([], w) \<and>
   (\<forall>qs. queryset_of sv mq = Some qs \<and> class_is_indexed (registry sv) (model_of mq) \<and>
         query \<noteq> [] \<and> qs_lookups qs = [] \<longrightarrow>
      search (MeiliSearchBackend base) sv query mq flds oper by_relevance partial =
        (case compile MeiliSearchQueryCompiler qs query
                \<lparr>kw_fields = flds, kw_operator = oper, kw_order_by_relevance = by_relevance,
                 kw_partial_match = Some partial\<rparr> of
           Inl e \<Rightarrow> Inl e
         | Inr qc \<Rightarrow>
             (case check_fields sv qc of
                Some e \<Rightarrow> Inl e
              | None \<Rightarrow>
                  (case check_order_by sv qc of
                     Some e \<Rightarrow> Inl e
                   | None \<Rightarrow>
                       Inr (MeiliSearchResults
                         \<lparr>query_compiler = qc, start = 0, stop = None\<rparr>))))) \<and>
   ((compile cls qs' query kw = Inl ValueError) =
      (py_lower (case kw_operator kw of
                   None \<Rightarrow> ''or'' | Some op' \<Rightarrow> if op' = [] then ''or'' else op')
         \<notin> {''or'', ''and''})) \<and>
   evaluate sv w (MeiliSearchResults self) = do_search sv w self \<and>
   merged_hits sv w self =
     first_occurrences (all_hits (index_search sv) (query_string (query_compiler self))
       (resolved_models sv w self)) \<and>
   calls (snd (do_search sv w self)) =
     calls w @ fan_out_calls (query_string (query_compiler self)) (resolved_models sv w self)
       @ (if merged_hits sv w self = [] then [] else [DatastoreQuery])"
proof (intro conjI impI allI)
  assume "queryset_of sv mq = None"
  then show "search (MeiliSearchBackend base) sv query mq flds oper by_relevance partial
      = Inl AttributeError"
    by (simp add: search_unfolded)
next
  assume "queryset_of sv mq \<noteq> None \<and>
    (\<not> class_is_indexed (registry sv) (model_of mq) \<or> query = [])"
  then show "search (MeiliSearchBackend base) sv query mq flds oper by_relevance partial
      = Inr EmptySearchResults"
    by (auto simp: search_unfolded)
next
  show "evaluate sv w EmptySearchResults = ([], w)"
    by (simp add: evaluate_def)
next
  fix qs
  let ?kw = "\<lparr>kw_fields = flds, kw_operator = oper, kw_order_by_relevance = by_relevance,
               kw_partial_match = Some partial\<rparr>"
  assume a: "queryset_of sv mq = Some qs \<and> class_is_indexed (registry sv) (model_of mq) \<and>
         query \<noteq> [] \<and> qs_lookups qs = []"
  show "search (MeiliSearchBackend base) sv query mq flds oper by_relevance partial =
        (case compile MeiliSearchQueryCompiler qs query ?kw of
           Inl e \<Rightarrow> Inl e
         | Inr qc \<Rightarrow>
             (case check_fields sv qc of
                Some e \<Rightarrow> Inl e
              | None \<Rightarrow>
                  (case check_order_by sv qc of
                     Some e \<Rightarrow> Inl e
                   | None \<Rightarrow>
                       Inr (MeiliSearchResults
                         \<lparr>query_compiler = qc, start = 0, stop = None\<rparr>))))"
  proof (cases "compile MeiliSearchQueryCompiler qs query ?kw")
    case (Inl e)
    with a show ?thesis by (simp add: search_unfolded)
  next
    case (Inr qc)
    then have "qs_lookups (qc_queryset qc) = []"
      using a compile_queryset by blast
    then have "check sv qc
        = (case check_fields sv qc of Some e \<Rightarrow> Some e | None \<Rightarrow> check_order_by sv qc)"
      by (rule check_without_lookups)
    with a Inr show ?thesis by (simp add: search_unfolded split: option.splits)
  qed
next
  show "(compile cls qs' query kw = Inl ValueError) =
      (py_lower (case kw_operator kw of
                   None \<Rightarrow> ''or'' | Some op' \<Rightarrow> if op' = [] then ''or'' else op')
         \<notin> {''or'', ''and''})"
    by (simp add: compile_def Let_def)
next
  show "evaluate sv w (MeiliSearchResults self) = do_search sv w self"
    by (simp add: evaluate_def)
next
  have "\<not> py_in y []" for y by (simp add: py_in_def)
  then show "merged_hits sv w self =
     first_occurrences (all_hits (index_search sv) (query_string (query_compiler self))
       (resolved_models sv w self))"
    using append_new_first_occurrences
      [of "[]" "all_hits (index_search sv) (query_string (query_compiler self))
         (resolved_models sv w self)"]
    by (simp add: merged_hits_eq)
next
  show "calls (snd (do_search sv w self)) =
     calls w @ fan_out_calls (query_string (query_compiler self)) (resolved_models sv w self)
       @ (if merged_hits sv w self = [] then [] else [DatastoreQuery])"
    by (rule do_search_calls)
qed

theorem search_rejects_or_builds_query_witness:
  "search (MeiliSearchBackend base_attributes) ex_services [] (AModel ''home.Page'')
       None None True True
     = Inr EmptySearchResults \<and>
   search (MeiliSearchBackend base_attributes) ex_services ''hello'' (AModel ''sessions.Session'')
       None None True True
     = Inr EmptySearchResults \<and>
   evaluate ex_services ex_world EmptySearchResults = ([], ex_world) \<and>
   search (MeiliSearchBackend base_attributes) ex_services ''hello'' (AModel ''home.Page'')
       None None True True
     = Inr (MeiliSearchResults ex_results) \<and>
   search (MeiliSearchBackend base_attributes) ex_services ''hello''
       (AModel ''home.AbstractPage'') None None True True
     = Inl AttributeError \<and>
   calls (snd (evaluate ex_services ex_world (MeiliSearchResults ex_results)))
     = [GetIndex ''home.Page'', IndexSearch ''home.Page'' ''hello'',
        GetIndex ''home.HomePage'', IndexSearch ''home.HomePage'' ''hello'',
        GetIndex ''home.SimplePage'', IndexSearch ''home.SimplePage'' ''hello'',
        DatastoreQuery]"
proof -
  let ?kw = "\<lparr>kw_fields = None, kw_operator = None, kw_order_by_relevance = True,
               kw_partial_match = Some True\<rparr>"
  note empty_query = search_rejects_or_builds_query
      [of ex_services "AModel ''home.Page''" base_attributes "[]" None None True True
          ex_world MeiliSearchQueryCompiler ex_pages ?kw ex_results]
  note unregistered = search_rejects_or_builds_query
      [of ex_services "AModel ''sessions.Session''" base_attributes "''hello''" None None
          True True ex_world MeiliSearchQueryCompiler ex_pages ?kw ex_results]
  note registered = search_rejects_or_builds_query
      [of ex_services "AModel ''home.Page''" base_attributes "''hello''" None None
          True True ex_world MeiliSearchQueryCompiler ex_pages ?kw ex_results]
  note no_manager = search_rejects_or_builds_query
      [of ex_services "AModel ''home.AbstractPage''" base_attributes "''hello''" None None
          True True ex_world MeiliSearchQueryCompiler ex_pages ?kw ex_results]
  have 1: "search (MeiliSearchBackend base_attributes) ex_services [] (AModel ''home.Page'')
       None None True True = Inr EmptySearchResults"
    using empty_query by (simp add: ex_querysets)
  have 2: "search (MeiliSearchBackend base_attributes) ex_services ''hello''
       (AModel ''sessions.Session'') None None True True = Inr EmptySearchResults"
    using unregistered by (simp add: ex_querysets ex_indexed)
  have 3: "evaluate ex_services ex_world EmptySearchResults = ([], ex_world)"
    by (rule registered [THEN conjunct2, THEN conjunct2, THEN conjunct1])
  have "search (MeiliSearchBackend base_attributes) ex_services ''hello'' (AModel ''home.Page'')
       None None True True =
        (case compile MeiliSearchQueryCompiler ex_pages ''hello'' ?kw of
           Inl e \<Rightarrow> Inl e
         | Inr qc \<Rightarrow>
             (case check_fields ex_services qc of
                Some e \<Rightarrow> Inl e
              | None \<Rightarrow>
                  (case check_order_by ex_services qc of
                     Some e \<Rightarrow> Inl e
                   | None \<Rightarrow>
                       Inr (MeiliSearchResults
                         \<lparr>query_compiler = qc, start = 0, stop = None\<rparr>))))"
    by (rule registered [THEN conjunct2, THEN conjunct2, THEN conjunct2, THEN conjunct1,
          rule_format, of ex_pages])
       (simp add: ex_querysets ex_indexed ex_no_lookups)
  then have 4: "search (MeiliSearchBackend base_attributes) ex_services ''hello''
       (AModel ''home.Page'') None None True True = Inr (MeiliSearchResults ex_results)"
    by (simp add: ex_compiled ex_checks ex_results_def)
  have 5: "search (MeiliSearchBackend base_attributes) ex_services ''hello''
       (AModel ''home.AbstractPage'') None None True True = Inl AttributeError"
    using no_manager by (simp add: ex_querysets)
  have "evaluate ex_services ex_world (MeiliSearchResults ex_results)
      = do_search ex_services ex_world ex_results"
    by (rule registered [THEN conjunct2, THEN conjunct2, THEN conjunct2, THEN conjunct2,
          THEN conjunct2, THEN conjunct1])
  then have 6: "calls (snd (evaluate ex_services ex_world (MeiliSearchResults ex_results)))
     = [GetIndex ''home.Page'', IndexSearch ''home.Page'' ''hello'',
        GetIndex ''home.HomePage'', IndexSearch ''home.HomePage'' ''hello'',
        GetIndex ''home.SimplePage'', IndexSearch ''home.SimplePage'' ''hello'',
        DatastoreQuery]"
    by (simp add: ex_evaluated_calls)
  show ?thesis by (intro conjI 1 2 3 4 5 6)
qed

text \<open>
  C9. The class \<^verbatim>\<open>MeiliSearchBackend\<close> sets no autocomplete query compiler, so with a
  base class that leaves it \<^verbatim>\<open>None\<close> the autocomplete operation fails with the "not
  implemented" signal for every query and every type: it returns no results object and
  never reaches \<^verbatim>\<open>_search\<close> or the fan-out.
\<close>

theorem autocomplete_not_implemented:
  "autocomplete_query_compiler_class base = None \<Longrightarrow>
   autocomplete (MeiliSearchBackend base) sv query mq flds oper by_relevance
     = Inl (NotImplementedError ''This search backend does not support the autocomplete API'')"
  by (simp add: autocomplete_def MeiliSearchBackend_def)

theorem autocomplete_not_implemented_witness:
  "autocomplete_query_compiler_class base_attributes = None \<and>
   autocomplete (MeiliSearchBackend base_attributes) ex_services ''hello'' (AModel ''home.Page'')
       None None True
     = Inl (NotImplementedError ''This search backend does not support the autocomplete API'')"
  using autocomplete_not_implemented
    [of base_attributes ex_services "''hello''" "AModel ''home.Page''" None None True]
  by (simp add: base_attributes_def)

section \<open>Determinism of the pipeline\<close>

text \<open>
  C10. Two runs of \<^verbatim>\<open>_do_search\<close> for the same results object (the same query, queryset
  rows and window), in any two environments and states in which the fan-out resolves
  to the same concrete types and the index of each of these types returns the same hit
  list, give the same merged list, the same scored and sorted list, the same windowed
  output and the same count. Nothing else of the environment or of the state (the
  hits of other indexes, the memo table, the calls made before) reaches the output.
\<close>

theorem do_search_two_run_determinism:
  assumes "resolved_models sv1 w1 self = resolved_models sv2 w2 self"
    and "\<forall>m \<in> set (resolved_models sv1 w1 self).
           index_search sv1 m (query_string (query_compiler self))
             = index_search sv2 m (query_string (query_compiler self))"
  shows "merged_hits sv1 w1 self = merged_hits sv2 w2 self \<and>
         sorted_results (merged_hits sv1 w1 self) = sorted_results (merged_hits sv2 w2 self) \<and>
         fst (do_search sv1 w1 self) = fst (do_search sv2 w2 self) \<and>
         fst (do_count sv1 w1 self) = fst (do_count sv2 w2 self)"
proof -
  have m: "merged_hits sv1 w1 self = merged_hits sv2 w2 self"
    using assms all_hits_cong [of "resolved_models sv1 w1 self" "index_search sv1"
        "query_string (query_compiler self)" "index_search sv2"]
    by (simp add: merged_hits_eq)
  show ?thesis by (simp add: m do_count_length do_search_rows)
qed

theorem do_search_two_run_determinism_witness:
  "ex_services \<noteq> ex_other_services \<and> ex_world \<noteq> ex_cached_world \<and>
   fst (do_search ex_services ex_world ex_results) = [row7, row9] \<and>
   fst (do_search ex_other_services ex_cached_world ex_results) = [row7, row9]"
proof -
  have a: "resolved_models ex_services ex_world ex_results
      = resolved_models ex_other_services ex_cached_world ex_results"
    by (simp add: ex_resolved ex_resolved_other)
  have b: "\<forall>m \<in> set (resolved_models ex_services ex_world ex_results).
           index_search ex_services m (query_string (query_compiler ex_results))
             = index_search ex_other_services m (query_string (query_compiler ex_results))"
    using ex_same_hits by (simp add: ex_resolved ex_terms list_all_iff)
  have "ex_world \<noteq> ex_cached_world" by (simp add: ex_world_def ex_cached_world_def)
  moreover have "index_search ex_services ''sessions.Session'' ''hello''
      \<noteq> index_search ex_other_services ''sessions.Session'' ''hello''"
    by (simp add: ex_services_def ex_other_services_def ex_index_search_def)
  then have "ex_services \<noteq> ex_other_services" by auto
  ultimately show ?thesis
    using do_search_two_run_determinism [OF a b] by (simp add: ex_rows)
qed

end
